theory Spec2Isabelle
  imports Main "HOL-Library.Multiset"
begin

section \<open>Go library functions used by the cataloger\<close>

text \<open>
  A Go \<^verbatim>\<open>string\<close> is a sequence of bytes; it is modelled as \<^typ>\<open>string\<close>, a list of
  \<^typ>\<open>char\<close> (one \<^typ>\<open>char\<close> per byte). The helpers below are the functions of the Go
  packages \<^verbatim>\<open>strings\<close>, \<^verbatim>\<open>bytes\<close>, \<^verbatim>\<open>fmt\<close>, \<^verbatim>\<open>bufio\<close> and \<^verbatim>\<open>net/url\<close> that
  \<^verbatim>\<open>cpe.go\<close> calls. They belong to the Go distribution, not to the repository.
\<close>

text \<open>\<^verbatim>\<open>strings.HasPrefix(s, prefix)\<close>.\<close>

definition HasPrefix :: "string \<Rightarrow> string \<Rightarrow> bool" where
  "HasPrefix s pre = (take (length pre) s = pre)"

text \<open>\<^verbatim>\<open>strings.Contains(s, substr)\<close>: \<open>substr\<close> occurs in \<open>s\<close> as a contiguous block.\<close>

fun Contains :: "string \<Rightarrow> string \<Rightarrow> bool" where
  "Contains [] substr = (substr = [])"
| "Contains (c # cs) substr = (HasPrefix (c # cs) substr \<or> Contains cs substr)"

text \<open>
  \<^verbatim>\<open>strings.ReplaceAll(s, old, new)\<close>, for the one-byte \<open>old\<close> strings the cataloger
  passes (\<^verbatim>\<open>"-"\<close> and \<^verbatim>\<open>"_"\<close>).
\<close>

definition ReplaceAll :: "string \<Rightarrow> char \<Rightarrow> string \<Rightarrow> string" where
  "ReplaceAll s old new = concat (map (\<lambda>c. if c = old then new else [c]) s)"

text \<open>
  \<^verbatim>\<open>strings.ToLower\<close> on the ASCII range: the bytes \<^verbatim>\<open>A\<close>..\<^verbatim>\<open>Z\<close> are mapped to
  \<^verbatim>\<open>a\<close>..\<^verbatim>\<open>z\<close>. Bytes from 0x80 on are left as they are (Go applies the Unicode case
  mapping to the runes they encode; that table is outside this model).
\<close>

definition toLowerByte :: "char \<Rightarrow> char" where
  "toLowerByte c =
     (let n = (of_char c :: nat) in if 65 \<le> n \<and> n \<le> 90 then char_of (n + 32) else c)"

definition ToLower :: "string \<Rightarrow> string" where
  "ToLower s = map toLowerByte s"

text \<open>
  \<^verbatim>\<open>strings.TrimFunc(s, f)\<close> removes the leading and the trailing bytes that satisfy
  \<open>f\<close>; \<^verbatim>\<open>strings.Trim(s, cutset)\<close> is the same with membership in \<open>cutset\<close>.
\<close>

definition TrimFunc :: "string \<Rightarrow> (char \<Rightarrow> bool) \<Rightarrow> string" where
  "TrimFunc s f = rev (dropWhile f (rev (dropWhile f s)))"

definition Trim :: "string \<Rightarrow> string \<Rightarrow> string" where
  "Trim s cutset = TrimFunc s (\<lambda>c. c \<in> set cutset)"

text \<open>
  \<^verbatim>\<open>strings.Split(s, sep)\<close> for a one-byte separator. The result is never empty:
  a string without the separator gives the one-element list holding it, and the empty
  string gives \<open>[[]]\<close>.
\<close>

fun Split :: "string \<Rightarrow> char \<Rightarrow> string list" where
  "Split [] sep = [[]]"
| "Split (c # cs) sep =
     (if c = sep then [] # Split cs sep
      else (case Split cs sep of
              [] \<Rightarrow> [[c]]
            | field # fields \<Rightarrow> (c # field) # fields))"

text \<open>
  \<^verbatim>\<open>bytes.IndexAny(data, chars)\<close>: the index of the first byte of \<open>data\<close> that is one
  of \<open>chars\<close>, or \<open>-1\<close>.
\<close>

fun IndexAny :: "string \<Rightarrow> string \<Rightarrow> int" where
  "IndexAny [] chars = - 1"
| "IndexAny (c # cs) chars =
     (if c \<in> set chars then 0
      else (let i = IndexAny cs chars in if i < 0 then - 1 else i + 1))"

text \<open>
  The Go conversion \<^verbatim>\<open>string(b)\<close> of a \<^verbatim>\<open>uint8\<close>: the UTF-8 encoding of the code
  point \<open>b\<close>, one byte below 0x80 and two bytes from 0x80 on.
\<close>

definition string_of_uint8 :: "char \<Rightarrow> string" where
  "string_of_uint8 b =
     (let n = (of_char b :: nat)
      in if n < 128 then [b] else [char_of (192 + n div 64), char_of (128 + n mod 64)])"

section \<open>The Sub-Selection Expander\<close>

text \<open>\<^verbatim>\<open>trimHyphenOrUnderscore\<close> (cpe.go, lines 382-388).\<close>

definition trimHyphenOrUnderscore :: "char \<Rightarrow> bool" where
  "trimHyphenOrUnderscore r = (r = CHR ''-'' \<or> r = CHR ''_'')"

text \<open>
  \<^verbatim>\<open>scanHyphenOrUnderscore\<close> (cpe.go, lines 391-404), the split function handed to the
  scanner. It returns the advance and the token; \<open>None\<close> is the \<^verbatim>\<open>nil\<close> token. Its
  error is always \<^verbatim>\<open>nil\<close> and is left out.
\<close>

definition scanHyphenOrUnderscore :: "string \<Rightarrow> bool \<Rightarrow> nat \<times> string option" where
  "scanHyphenOrUnderscore data atEOF =
     (if atEOF \<and> length data = 0 then (0, None)
      else (let i = IndexAny data ''-_''
            in if i \<ge> 0 then (nat i + 1, Some (take (nat i + 1) data))
               else if atEOF then (length data, Some data)
               else (0, None)))"

text \<open>
  \<^verbatim>\<open>bufio.Scanner\<close> over \<^verbatim>\<open>strings.NewReader(field)\<close>, as the list of the tokens that the
  successive calls of \<^verbatim>\<open>Scan\<close> deliver. The scanner shows the split function the unread
  input that fits its buffer, which grows to \<^verbatim>\<open>bufio.MaxScanTokenSize\<close> bytes and no
  further, and tells it that the input has ended only once the end was read into a
  buffer that was not full. A \<^verbatim>\<open>nil\<close> token then ends the scan (the end of the input, or
  \<^verbatim>\<open>ErrTooLong\<close>, which \<^verbatim>\<open>generateSubSelections\<close> does not look at). A token with advance
  0 is never produced by \<^verbatim>\<open>scanHyphenOrUnderscore\<close>; the model stops there.
\<close>

definition MaxScanTokenSize :: nat where
  "MaxScanTokenSize = 64 * 1024"

function Scanner_tokens :: "string \<Rightarrow> string list" where
  "Scanner_tokens input =
     (case scanHyphenOrUnderscore (take MaxScanTokenSize input)
             (length input < MaxScanTokenSize) of
        (advance, None) \<Rightarrow> []
      | (advance, Some token) \<Rightarrow>
          (if 0 < advance then token # Scanner_tokens (drop advance input) else []))"
  by pat_completeness auto

lemma scanHyphenOrUnderscore_token_nonempty:
  "scanHyphenOrUnderscore data atEOF = (advance, Some token) \<Longrightarrow> data \<noteq> []"
  by (auto simp: scanHyphenOrUnderscore_def Let_def split: if_splits)

termination Scanner_tokens
proof (relation "measure length")
  show "wf (measure length)" by simp
next
  fix input :: string and advance :: nat and y :: "string option" and token :: string
  assume scan: "(advance, y) = scanHyphenOrUnderscore (take MaxScanTokenSize input)
                (length input < MaxScanTokenSize)"
    and y: "y = Some token" and adv: "0 < advance"
  from scan y have "take MaxScanTokenSize input \<noteq> []"
    using scanHyphenOrUnderscore_token_nonempty [of "take MaxScanTokenSize input"
        "length input < MaxScanTokenSize" advance token]
    by simp
  then have "input \<noteq> []" by auto
  with adv show "(drop advance input, input) \<in> measure length"
    by simp
qed

declare Scanner_tokens.simps [simp del]

text \<open>
  The loop of \<^verbatim>\<open>generateSubSelections\<close> (cpe.go, lines 359-378) over the scanner's
  tokens, with its two variables \<open>results\<close> and \<open>lastToken\<close> as explicit state.
\<close>

fun generateSubSelections_loop :: "string list \<Rightarrow> string list \<Rightarrow> char \<Rightarrow> string list" where
  "generateSubSelections_loop [] results lastToken = results"
| "generateSubSelections_loop (rawCandidate # tokens) results lastToken =
     (if length rawCandidate = 0 then results
      else
        (let candidate = TrimFunc rawCandidate trimHyphenOrUnderscore;
             results' =
               (if length candidate > 0
                then (if length results > 0
                      then results @ [last results @ string_of_uint8 lastToken @ candidate]
                      else results @ [candidate])
                else results)
         in generateSubSelections_loop tokens results' (last rawCandidate)))"

text \<open>\<^verbatim>\<open>generateSubSelections\<close> (cpe.go, lines 355-380).\<close>

definition generateSubSelections :: "string \<Rightarrow> string list" where
  "generateSubSelections field =
     generateSubSelections_loop (Scanner_tokens field) [] (CHR 0x00)"

text \<open>\<^verbatim>\<open>generateAllSubSelections\<close> (cpe.go, lines 346-351).\<close>

definition generateAllSubSelections :: "string list \<Rightarrow> string list" where
  "generateAllSubSelections fields =
     fold (\<lambda>field results. results @ generateSubSelections field) fields []"

section \<open>The Separator Normalizer and duplicate removal\<close>

text \<open>
  \<^verbatim>\<open>normalizeAllSeparators\<close> (cpe.go, lines 406-427): the loop appends to \<open>results\<close>
  the field itself and then the variants.
\<close>

definition normalizeAllSeparators :: "string list \<Rightarrow> string list" where
  "normalizeAllSeparators fields =
     fold (\<lambda>field results.
            (let results1 = results @ [field];
                 hasHyphen = Contains field ''-'';
                 hasUnderscore = Contains field ''_'';
                 results2 =
                   (if hasHyphen
                    then (results1 @ [ReplaceAll field (CHR ''-'') ''_''])
                           @ [ReplaceAll field (CHR ''-'') '''']
                    else results1);
                 results3 =
                   (if hasUnderscore
                    then (results2 @ [ReplaceAll field (CHR ''_'') ''-''])
                           @ [ReplaceAll field (CHR ''_'') '''']
                    else results2)
             in results3))
       fields []"

text \<open>
  \<^verbatim>\<open>removeDuplicateValues\<close> (cpe.go, lines 429-438): the loop carries the map
  \<open>observed\<close> (a set of keys, its values being empty structs) and \<open>results\<close>.
\<close>

definition removeDuplicateValues :: "string list \<Rightarrow> string list" where
  "removeDuplicateValues values =
     snd (fold (\<lambda>entry (observed, results).
                  if entry \<notin> observed then (insert entry observed, results @ [entry])
                  else (observed, results))
            values ({}, []))"

section \<open>The package and the identifier\<close>

text \<open>
  The types of package \<^verbatim>\<open>pkg\<close> are declared outside \<^verbatim>\<open>cpe.go\<close>. \<^verbatim>\<open>pkg.Language\<close>,
  \<^verbatim>\<open>pkg.Type\<close> and \<^verbatim>\<open>pkg.MetadataType\<close> are enumerations; the constructors are the
  constants \<^verbatim>\<open>cpe.go\<close> names, and one more for every other value. \<^verbatim>\<open>Metadata\<close> is an
  interface value: \<open>NoMetadata\<close> is \<^verbatim>\<open>nil\<close>, \<open>JavaMetadata\<close> is a \<^verbatim>\<open>pkg.JavaMetadata\<close>
  with its \<^verbatim>\<open>PomProperties\<close> pointer (\<open>None\<close> is \<^verbatim>\<open>nil\<close>), \<open>OtherMetadata\<close> any other
  metadata struct. Of \<^verbatim>\<open>pkg.PomProperties\<close> and \<^verbatim>\<open>pkg.Package\<close> only the fields that
  \<^verbatim>\<open>cpe.go\<close> reads are kept.
\<close>

datatype Language = UnknownLanguage | Java | JavaScript | Python | Ruby | Go

datatype pkg_Type =
  UnknownPkg | GemPkg | GoModulePkg | JavaPkg | JenkinsPluginPkg | NpmPkg | PythonPkg

datatype MetadataType = UnknownMetadataType | JavaMetadataType | OtherMetadataType

record PomProperties =
  GroupID :: string

datatype Metadata = NoMetadata | JavaMetadata "PomProperties option" | OtherMetadata

record Package =
  Name :: string
  Version :: string
  Language :: Language
  Type :: pkg_Type
  MetadataType :: MetadataType
  Metadata :: Metadata

text \<open>
  \<^verbatim>\<open>pkg.CPE\<close> is \<^verbatim>\<open>wfn.Attributes\<close> of the external attribute library: eleven string
  fields. (The fields \<^verbatim>\<open>Version\<close> and \<^verbatim>\<open>Language\<close> carry the prefix \<open>Attr\<close> here, the
  plain names being the package's.)
\<close>

record CPE =
  Part :: string
  Vendor :: string
  Product :: string
  AttrVersion :: string
  Update :: string
  Edition :: string
  SWEdition :: string
  TargetSW :: string
  TargetHW :: string
  Other :: string
  AttrLanguage :: string

text \<open>
  The wildcard \<^verbatim>\<open>wfn.Any\<close> is a string constant of the external attribute library.
  Its text is not fixed here: every function that reads it takes it as its first
  argument \<open>any\<close>, and every theorem holds whatever it is.

  \<^verbatim>\<open>newCPE\<close> (cpe.go, lines 81-90): \<^verbatim>\<open>wfn.NewAttributesWithAny()\<close> gives the attributes
  with every field the wildcard.
\<close>

definition NewAttributesWithAny :: "string \<Rightarrow> CPE" where
  "NewAttributesWithAny any =
     \<lparr>Part = any, Vendor = any, Product = any, AttrVersion = any, Update = any,
      Edition = any, SWEdition = any, TargetSW = any, TargetHW = any, Other = any,
      AttrLanguage = any\<rparr>"

definition newCPE :: "string \<Rightarrow> string \<Rightarrow> string \<Rightarrow> string \<Rightarrow> string \<Rightarrow> CPE" where
  "newCPE any product vendor version targetSW =
     (NewAttributesWithAny any)
       \<lparr>Part := ''a'', Product := product, Vendor := vendor, AttrVersion := version,
        TargetSW := targetSW\<rparr>"

section \<open>The static override table\<close>

text \<open>
  \<^verbatim>\<open>candidateStore\<close> is a map from package types to maps from package names to alias
  lists; \<^verbatim>\<open>productCandidatesByPkgType\<close> (cpe.go, lines 16-40) is the table.
\<close>

type_synonym candidateStore = "pkg_Type \<rightharpoonup> (string \<rightharpoonup> string list)"

definition productCandidatesByPkgType :: candidateStore where
  "productCandidatesByPkgType =
     map_of
       [(JavaPkg, map_of
           [(''springframework'', [''spring_framework'', ''springsource_spring_framework'']),
            (''spring-core'', [''spring_framework'', ''springsource_spring_framework''])]),
        (NpmPkg, map_of
           [(''hapi'', [''hapi_server_framework'']),
            (''handlebars.js'', [''handlebars'']),
            (''is-my-json-valid'', [''is_my_json_valid'']),
            (''mustache'', [''mustache.js''])]),
        (GemPkg, map_of
           [(''Arabic-Prawn'', [''arabic_prawn'']),
            (''bio-basespace-sdk'', [''basespace_ruby_sdk'']),
            (''cremefraiche'', [''creme_fraiche'']),
            (''html-sanitizer'', [''html_sanitizer'']),
            (''sentry-raven'', [''raven-ruby'']),
            (''RedCloth'', [''redcloth_library'']),
            (''VladTheEnterprising'', [''vladtheenterprising'']),
            (''yajl-ruby'', [''yajl-ruby_gem''])]),
        (PythonPkg, map_of
           [(''python-rrdtool'', [''rrdtool''])])]"

text \<open>\<^verbatim>\<open>getCandidates\<close> (cpe.go, lines 69-79); the \<^verbatim>\<open>nil\<close> slice is the empty list.\<close>

definition getCandidates :: "candidateStore \<Rightarrow> pkg_Type \<Rightarrow> string \<Rightarrow> string list" where
  "getCandidates s t key =
     (case s t of
        None \<Rightarrow> []
      | Some m \<Rightarrow> (case m key of None \<Rightarrow> [] | Some value \<Rightarrow> value))"

section \<open>Go module paths\<close>

text \<open>
  Modelled from the spec: \<^verbatim>\<open>url.Parse\<close> of Go's \<^verbatim>\<open>net/url\<close> is not part of the source;
  the spec says that the name is treated as a URL by prefixing a scheme, that host and
  path are parsed from it, and that a malformed name has no result. The model follows
  the generic syntax \<^verbatim>\<open>http://[userinfo@]host[/path][?query][#fragment]\<close>: the
  fragment and the query are cut off, the authority ends at the first slash, the host
  is what follows the last \<^verbatim>\<open>@\<close> of the authority (a port belongs to it), and the path
  is the rest, from its slash on. A name is malformed (\<open>None\<close>) when the URL has an ASCII
  control byte before its fragment, when the host has a byte that a host name may
  not have, or when what follows the last colon of the host is not a decimal port.
  Percent-escapes are kept as they are written, and bracketed IPv6 literals and the
  userinfo are not checked.
\<close>

record URL =
  Host :: string
  Path :: string

definition stringContainsCTLByte :: "string \<Rightarrow> bool" where
  "stringContainsCTLByte s =
     (\<exists>c \<in> set s. (of_char c :: nat) < 32 \<or> (of_char c :: nat) = 127)"

definition validHostByte :: "char \<Rightarrow> bool" where
  "validHostByte c =
     (let n = (of_char c :: nat)
      in (97 \<le> n \<and> n \<le> 122) \<or> (65 \<le> n \<and> n \<le> 90) \<or> (48 \<le> n \<and> n \<le> 57)
         \<or> c \<in> set ''!$&()*+,;=:[]<>-_.~%'' \<or> n = 39 \<or> n = 34 \<or> 128 \<le> n)"

definition validOptionalPort :: "string \<Rightarrow> bool" where
  "validOptionalPort port =
     (case port of
        [] \<Rightarrow> True
      | c # digits \<Rightarrow>
          c = CHR '':'' \<and> (\<forall>d \<in> set digits. 48 \<le> (of_char d :: nat) \<and> (of_char d :: nat) \<le> 57))"

definition url_Parse :: "string \<Rightarrow> URL option" where
  "url_Parse rawURL =
     (let u = takeWhile (\<lambda>c. c \<noteq> CHR ''#'') rawURL
      in if stringContainsCTLByte u \<or> \<not> HasPrefix u ''http://'' then None
         else
           (let rest = takeWhile (\<lambda>c. c \<noteq> CHR ''?'') (drop 7 u);
                authority = takeWhile (\<lambda>c. c \<noteq> CHR ''/'') rest;
                path = dropWhile (\<lambda>c. c \<noteq> CHR ''/'') rest;
                host = rev (takeWhile (\<lambda>c. c \<noteq> CHR ''@'') (rev authority));
                colonPort =
                  (if CHR '':'' \<in> set host
                   then CHR '':'' # rev (takeWhile (\<lambda>c. c \<noteq> CHR '':'') (rev host))
                   else [])
            in if (\<forall>c \<in> set host. validHostByte c) \<and> validOptionalPort colonPort
               then Some \<lparr>Host = host, Path = path\<rparr>
               else None))"

text \<open>
  The one run-time fault that the cataloger's code could raise: an index beyond the
  end of a slice. It stands where the source indexes a slice without testing its
  length first.
\<close>

datatype error = IndexOutOfRange

text \<open>
  \<^verbatim>\<open>candidateProductForGo\<close> (cpe.go, lines 228-250). \<^verbatim>\<open>pathElements[0]\<close> in the
  \<^verbatim>\<open>google.golang.org\<close> case is indexed without a test of the length; \<^verbatim>\<open>pathElements[1]\<close>
  is read after the test \<^verbatim>\<open>len(pathElements) < 2\<close>.
\<close>

definition candidateProductForGo :: "string \<Rightarrow> error + string" where
  "candidateProductForGo name =
     (case url_Parse (''http://'' @ name) of
        None \<Rightarrow> Inr ''''
      | Some u \<Rightarrow>
          (let cleanPath = Trim (Path u) ''/'';
               pathElements = Split cleanPath (CHR ''/'')
           in if Host u = ''golang.org'' \<or> Host u = ''gopkg.in'' then Inr cleanPath
              else if Host u = ''google.golang.org'' then
                (case pathElements of
                   [] \<Rightarrow> Inl IndexOutOfRange
                 | element # _ \<Rightarrow> Inr element)
              else if length pathElements < 2 then Inr ''''
              else Inr (pathElements ! 1)))"

text \<open>\<^verbatim>\<open>candidateVendorForGo\<close> (cpe.go, lines 254-277).\<close>

definition candidateVendorForGo :: "string \<Rightarrow> string" where
  "candidateVendorForGo name =
     (case url_Parse (''http://'' @ name) of
        None \<Rightarrow> ''''
      | Some u \<Rightarrow>
          (let cleanPath = Trim (Path u) ''/''
           in if Host u = ''google.golang.org'' then ''google''
              else if Host u = ''golang.org'' then ''golang''
              else if Host u = ''gopkg.in'' then ''''
              else
                (let pathElements = Split cleanPath (CHR ''/'')
                 in if length pathElements < 2 then '''' else pathElements ! 0)))"

section \<open>Java group identifiers\<close>

text \<open>
  Modelled from the spec: \<^verbatim>\<open>internal.HasAnyOfPrefixes\<close> is a helper of the repository
  that is not part of the source; the spec reads it as "starts with" one of the given
  strings.
\<close>

fun HasAnyOfPrefixes :: "string \<Rightarrow> string list \<Rightarrow> bool" where
  "HasAnyOfPrefixes input [] = False"
| "HasAnyOfPrefixes input (pre # prefixes) =
     (if HasPrefix input pre then True else HasAnyOfPrefixes input prefixes)"

text \<open>
  Modelled from the spec: the constants \<^verbatim>\<open>pkg.JiraPluginPomPropertiesGroupID\<close> and
  \<^verbatim>\<open>pkg.JenkinsPluginPomPropertiesGroupIDs\<close> are declared outside the source; the spec
  calls them the fixed exclusion list of the group identifiers of an issue tracker's
  and a CI server's plugins. No theorem below depends on the entries of the list but
  through the examples that evaluate it.
\<close>

definition JiraPluginPomPropertiesGroupID :: string where
  "JiraPluginPomPropertiesGroupID = ''com.atlassian.jira.plugins''"

definition JenkinsPluginPomPropertiesGroupIDs :: "string list" where
  "JenkinsPluginPomPropertiesGroupIDs =
     [''io.jenkins.plugins'', ''org.jenkins.plugins'', ''org.jenkins-ci.plugins'',
      ''io.jenkins-ci.plugins'', ''com.cloudbees.jenkins.plugins'']"

text \<open>\<^verbatim>\<open>shouldConsiderGroupID\<close> (cpe.go, lines 336-344).\<close>

definition shouldConsiderGroupID :: "string \<Rightarrow> bool" where
  "shouldConsiderGroupID groupID =
     (if groupID = '''' then False
      else
        (let excludedGroupIDs =
               [JiraPluginPomPropertiesGroupID] @ JenkinsPluginPomPropertiesGroupIDs
         in \<not> HasAnyOfPrefixes groupID excludedGroupIDs))"

text \<open>\<^verbatim>\<open>groupIDFromPomProperties\<close> (cpe.go, lines 323-334).\<close>

definition groupIDFromPomProperties :: "Package \<Rightarrow> string" where
  "groupIDFromPomProperties p =
     (case Metadata p of
        JavaMetadata pomProperties \<Rightarrow>
          (case pomProperties of None \<Rightarrow> '''' | Some properties \<Rightarrow> GroupID properties)
      | _ \<Rightarrow> '''')"

text \<open>
  \<^verbatim>\<open>productAndVendorFromPomPropertiesGroupID\<close> (cpe.go, lines 303-321); \<^verbatim>\<open>fields[2]\<close>
  and \<^verbatim>\<open>fields[1]\<close> are read after the test \<^verbatim>\<open>len(fields) < 3\<close>.
\<close>

definition productAndVendorFromPomPropertiesGroupID :: "Package \<Rightarrow> string \<times> string" where
  "productAndVendorFromPomPropertiesGroupID p =
     (let groupID = groupIDFromPomProperties p
      in if \<not> shouldConsiderGroupID groupID then ('''', '''')
         else if \<not> HasAnyOfPrefixes groupID [''com'', ''org''] then ('''', '''')
         else
           (let fields = Split groupID (CHR ''.'')
            in if length fields < 3 then ('''', '''')
               else (fields ! 2, fields ! 1)))"

text \<open>\<^verbatim>\<open>candidateProductsForJava\<close> (cpe.go, lines 279-293).\<close>

definition candidateProductsForJava :: "Package \<Rightarrow> string list" where
  "candidateProductsForJava p =
     (let product = fst (productAndVendorFromPomPropertiesGroupID p)
      in if product \<noteq> '''' then
           (if Type p = JenkinsPluginPkg \<and> ToLower product = ''jenkins'' then []
            else [product])
         else [])"

text \<open>\<^verbatim>\<open>candidateVendorsForJava\<close> (cpe.go, lines 295-301).\<close>

definition candidateVendorsForJava :: "Package \<Rightarrow> string list" where
  "candidateVendorsForJava p =
     (let vendor = snd (productAndVendorFromPomPropertiesGroupID p)
      in if vendor \<noteq> '''' then [vendor] else [])"

section \<open>Product and vendor candidates\<close>

text \<open>
  \<^verbatim>\<open>candidateProducts\<close> (cpe.go, lines 198-224) in two parts. The first,
  \<open>candidateProducts_base\<close>, is the value of the variable \<^verbatim>\<open>products\<close> after the
  \<^verbatim>\<open>switch\<close> statement (lines 199-215): the name-derived candidates before they are
  normalized. The cases of the \<^verbatim>\<open>switch\<close> are tried in the order of the source.
\<close>

definition candidateProducts_base :: "Package \<Rightarrow> error + string list" where
  "candidateProducts_base p =
     (let products = [Name p]
      in if Language p = Python then
           (if \<not> HasPrefix (Name p) ''python''
            then Inr (products @ [''python-'' @ Name p])
            else Inr products)
         else if MetadataType p = JavaMetadataType then
           Inr (products @ candidateProductsForJava p)
         else if Language p = Go then
           (case candidateProductForGo (Name p) of
              Inl e \<Rightarrow> Inl e
            | Inr goProd \<Rightarrow> if goProd \<noteq> '''' then Inr [goProd] else Inr [])
         else Inr products)"

definition candidateProducts :: "Package \<Rightarrow> error + string list" where
  "candidateProducts p =
     (case candidateProducts_base p of
        Inl e \<Rightarrow> Inl e
      | Inr products \<Rightarrow>
          (let products1 = normalizeAllSeparators products;
               products2 =
                 getCandidates productCandidatesByPkgType (Type p) (Name p) @ products1
           in Inr (removeDuplicateValues products2)))"

text \<open>\<^verbatim>\<open>candidateVendors\<close> (cpe.go, lines 171-196).\<close>

definition candidateVendors :: "Package \<Rightarrow> error + string list" where
  "candidateVendors p =
     (case candidateProducts p of
        Inl e \<Rightarrow> Inl e
      | Inr vendors \<Rightarrow>
          (let vendors1 =
                 (case Language p of
                    Java \<Rightarrow>
                      (if MetadataType p = JavaMetadataType
                       then vendors @ candidateVendorsForJava p
                       else vendors)
                  | Go \<Rightarrow>
                      (let vendor = candidateVendorForGo (Name p)
                       in if vendor \<noteq> '''' then [vendor] else [])
                  | _ \<Rightarrow> vendors);
               vendors2 = normalizeAllSeparators vendors1;
               vendors3 = generateAllSubSelections vendors2
           in Inr (removeDuplicateValues vendors3)))"

section \<open>Target software\<close>

text \<open>\<^verbatim>\<open>candidateTargetSoftwareAttrsForJava\<close> (cpe.go, lines 162-169).\<close>

definition candidateTargetSoftwareAttrsForJava :: "Package \<Rightarrow> string list" where
  "candidateTargetSoftwareAttrsForJava p =
     (if Type p = JenkinsPluginPkg then [''jenkins'', ''cloudbees_jenkins'']
      else [''java'', ''maven''])"

text \<open>\<^verbatim>\<open>candidateTargetSoftwareAttrs\<close> (cpe.go, lines 143-160).\<close>

definition candidateTargetSoftwareAttrs :: "Package \<Rightarrow> string list" where
  "candidateTargetSoftwareAttrs p =
     (case Language p of
        Java \<Rightarrow> [] @ candidateTargetSoftwareAttrsForJava p
      | JavaScript \<Rightarrow> [] @ [''node.js'', ''nodejs'']
      | Ruby \<Rightarrow> [] @ [''ruby'', ''rails'']
      | Python \<Rightarrow> [] @ [''python'']
      | Go \<Rightarrow> [] @ [''go'', ''golang'']
      | _ \<Rightarrow> [])"

section \<open>Exclusion filters\<close>

text \<open>\<^verbatim>\<open>cpeFilters\<close> (cpe.go, lines 42-62), with the wildcard as argument.\<close>

type_synonym filterFn = "CPE \<Rightarrow> Package \<Rightarrow> bool"

definition cpeFilters :: "string \<Rightarrow> filterFn list" where
  "cpeFilters any =
     [\<lambda>cpe p.
        if Product cpe = ''jira'' \<and> Contains (ToLower (Name p)) ''client''
        then (if Vendor cpe = any \<or> Vendor cpe = ''jira'' \<or> Vendor cpe = ''atlassian''
              then True else False)
        else False,
      \<lambda>cpe p.
        if Product cpe = ''jenkins'' \<and> \<not> Contains (ToLower (Name p)) ''jenkins''
        then (if Vendor cpe = any \<or> Vendor cpe = ''jenkins'' \<or> Vendor cpe = ''cloudbees''
              then True else False)
        else False]"

text \<open>
  \<^verbatim>\<open>filterCPEs\<close> (cpe.go, lines 92-104): an identifier is appended to \<open>result\<close> unless
  one of the filter functions returns true for it.
\<close>

definition filterCPEs :: "CPE list \<Rightarrow> Package \<Rightarrow> filterFn list \<Rightarrow> CPE list" where
  "filterCPEs cpes p filters =
     fold (\<lambda>cpe result.
            if list_ex (\<lambda>fn. fn cpe p) filters then result else result @ [cpe])
       cpes []"

section \<open>The Specificity Sorter\<close>

text \<open>
  Modelled from the spec: the comparator \<^verbatim>\<open>ByCPESpecificity\<close> is declared in another
  file of the repository and is not part of the source. The spec says that identifiers
  with fewer wildcard fields sort before more general ones and that the comparator is
  pure. \<open>countWildcardFields\<close> counts the wildcard fields of an identifier and
  \<open>ByCPESpecificity_Less\<close> is the comparator.
\<close>

definition countWildcardFields :: "string \<Rightarrow> CPE \<Rightarrow> nat" where
  "countWildcardFields any c =
     length (filter (\<lambda>field. field = any)
       [Part c, Vendor c, Product c, AttrVersion c, Update c, Edition c, SWEdition c,
        TargetSW c, TargetHW c, Other c, AttrLanguage c])"

definition ByCPESpecificity_Less :: "string \<Rightarrow> CPE \<Rightarrow> CPE \<Rightarrow> bool" where
  "ByCPESpecificity_Less any a b = (countWildcardFields any a < countWildcardFields any b)"

text \<open>
  \<^verbatim>\<open>sort.Sort\<close> belongs to the Go distribution. Go documents that it sorts the data in
  ascending order as determined by \<^verbatim>\<open>Less\<close> and that the sort is not guaranteed to be
  stable: which of the ordered permutations it returns depends on the algorithm of the
  library's release and is not fixed by the source. \<open>sort_Sort_contract\<close> is what the
  documentation promises of \<^verbatim>\<open>sort.Sort(ByCPESpecificity(cpes))\<close>, as a function of the
  wildcard and the list: the result is a permutation of the list, and no identifier of
  the result is \<^verbatim>\<open>Less\<close> than one that stands before it.
\<close>

definition sort_Sort_contract :: "(string \<Rightarrow> CPE list \<Rightarrow> CPE list) \<Rightarrow> bool" where
  "sort_Sort_contract f =
     (\<forall>any cpes.
        mset (f any cpes) = mset cpes
        \<and> sorted_wrt (\<lambda>a b. \<not> ByCPESpecificity_Less any b a) (f any cpes))"

text \<open>
  Two functions that keep the contract. \<open>sortByCPESpecificity\<close> sorts by insertion and
  keeps equally specific identifiers in the order of the input; \<open>sortTiesReversed\<close>
  sorts by insertion and puts equally specific identifiers in the reverse order.
\<close>

fun insertByCPESpecificity :: "string \<Rightarrow> CPE \<Rightarrow> CPE list \<Rightarrow> CPE list" where
  "insertByCPESpecificity any c [] = [c]"
| "insertByCPESpecificity any c (d # ds) =
     (if ByCPESpecificity_Less any d c then d # insertByCPESpecificity any c ds
      else c # d # ds)"

fun sortByCPESpecificity :: "string \<Rightarrow> CPE list \<Rightarrow> CPE list" where
  "sortByCPESpecificity any [] = []"
| "sortByCPESpecificity any (c # cs) =
     insertByCPESpecificity any c (sortByCPESpecificity any cs)"

fun insertAfterEqual :: "string \<Rightarrow> CPE \<Rightarrow> CPE list \<Rightarrow> CPE list" where
  "insertAfterEqual any c [] = [c]"
| "insertAfterEqual any c (d # ds) =
     (if ByCPESpecificity_Less any c d then c # d # ds
      else d # insertAfterEqual any c ds)"

fun sortTiesReversed :: "string \<Rightarrow> CPE list \<Rightarrow> CPE list" where
  "sortTiesReversed any [] = []"
| "sortTiesReversed any (c # cs) = insertAfterEqual any c (sortTiesReversed any cs)"

lemma mset_insertByCPESpecificity:
  "mset (insertByCPESpecificity any c ds) = add_mset c (mset ds)"
  by (induction ds) simp_all

lemma mset_sortByCPESpecificity: "mset (sortByCPESpecificity any cs) = mset cs"
  by (induction cs) (simp_all add: mset_insertByCPESpecificity)

lemma set_insertByCPESpecificity:
  "set (insertByCPESpecificity any c ds) = insert c (set ds)"
  by (induction ds) auto

lemma sorted_insertByCPESpecificity:
  assumes "sorted_wrt (\<lambda>a b. \<not> ByCPESpecificity_Less any b a) ds"
  shows "sorted_wrt (\<lambda>a b. \<not> ByCPESpecificity_Less any b a)
           (insertByCPESpecificity any c ds)"
  using assms
  by (induction ds)
    (auto simp: set_insertByCPESpecificity ByCPESpecificity_Less_def)

lemma sorted_sortByCPESpecificity:
  "sorted_wrt (\<lambda>a b. \<not> ByCPESpecificity_Less any b a) (sortByCPESpecificity any cs)"
  by (induction cs) (simp_all add: sorted_insertByCPESpecificity)

lemma sortByCPESpecificity_contract: "sort_Sort_contract sortByCPESpecificity"
  by (simp add: sort_Sort_contract_def mset_sortByCPESpecificity sorted_sortByCPESpecificity)

lemma mset_insertAfterEqual: "mset (insertAfterEqual any c ds) = add_mset c (mset ds)"
  by (induction ds) simp_all

lemma mset_sortTiesReversed: "mset (sortTiesReversed any cs) = mset cs"
  by (induction cs) (simp_all add: mset_insertAfterEqual)

lemma set_insertAfterEqual: "set (insertAfterEqual any c ds) = insert c (set ds)"
  by (induction ds) auto

lemma sorted_insertAfterEqual:
  assumes "sorted_wrt (\<lambda>a b. \<not> ByCPESpecificity_Less any b a) ds"
  shows "sorted_wrt (\<lambda>a b. \<not> ByCPESpecificity_Less any b a) (insertAfterEqual any c ds)"
  using assms
  by (induction ds) (auto simp: set_insertAfterEqual ByCPESpecificity_Less_def)

lemma sorted_sortTiesReversed:
  "sorted_wrt (\<lambda>a b. \<not> ByCPESpecificity_Less any b a) (sortTiesReversed any cs)"
  by (induction cs) (simp_all add: sorted_insertAfterEqual)

lemma sortTiesReversed_contract: "sort_Sort_contract sortTiesReversed"
  by (simp add: sort_Sort_contract_def mset_sortTiesReversed sorted_sortTiesReversed)

text \<open>
  \<open>sort_Sort\<close> is the type of the functions that keep the contract, that is, of the
  behaviours that \<^verbatim>\<open>sort.Sort(ByCPESpecificity(cpes))\<close> may have. The generator below takes
  a value of this type as an argument, and what is proved of the generator is proved
  for every such behaviour. \<open>stableSort\<close> and \<open>tiesReversedSort\<close> are the two functions
  above as values of the type.
\<close>

typedef sort_Sort = "{f. sort_Sort_contract f}"
  morphisms apply_sort_Sort Abs_sort_Sort
  using sortByCPESpecificity_contract by blast

definition stableSort :: sort_Sort where
  "stableSort = Abs_sort_Sort sortByCPESpecificity"

definition tiesReversedSort :: sort_Sort where
  "tiesReversedSort = Abs_sort_Sort sortTiesReversed"

text \<open>What the contract of the sorter gives: it permutes its input and orders it.\<close>

lemma apply_stableSort: "apply_sort_Sort stableSort = sortByCPESpecificity"
  by (simp add: stableSort_def Abs_sort_Sort_inverse sortByCPESpecificity_contract)

lemma apply_tiesReversedSort: "apply_sort_Sort tiesReversedSort = sortTiesReversed"
  by (simp add: tiesReversedSort_def Abs_sort_Sort_inverse sortTiesReversed_contract)

lemma mset_apply_sort_Sort: "mset (apply_sort_Sort sorter any cs) = mset cs"
  using apply_sort_Sort [of sorter] by (simp add: sort_Sort_contract_def)

lemma sorted_apply_sort_Sort:
  "sorted_wrt (\<lambda>a b. countWildcardFields any a \<le> countWildcardFields any b)
     (apply_sort_Sort sorter any cs)"
proof -
  have "sorted_wrt (\<lambda>a b. \<not> ByCPESpecificity_Less any b a) (apply_sort_Sort sorter any cs)"
    using apply_sort_Sort [of sorter] by (simp add: sort_Sort_contract_def)
  then show ?thesis
    by (simp add: ByCPESpecificity_Less_def not_less)
qed

lemma set_apply_sort_Sort: "set (apply_sort_Sort sorter any cs) = set cs"
  using mset_apply_sort_Sort [of sorter any cs] by (rule mset_eq_setD)

lemma apply_sort_Sort_Nil: "apply_sort_Sort sorter any [] = []"
  using mset_apply_sort_Sort [of sorter any "[]"] by simp

lemma distinct_map_apply_sort_Sort:
  "distinct (map f (apply_sort_Sort sorter any cs)) = distinct (map f cs)"
proof -
  have "mset (map f (apply_sort_Sort sorter any cs)) = mset (map f cs)"
    by (simp add: mset_apply_sort_Sort)
  then show ?thesis
    by (rule mset_eq_imp_distinct_iff)
qed

section \<open>The candidate generator\<close>

text \<open>
  \<^verbatim>\<open>generatePackageCPEs\<close> (cpe.go, lines 107-141). \<open>generatePackageCPEs_add\<close> is the
  body of the innermost loop (lines 121-130) on the state \<open>(keys, cpes)\<close>, the string set
  \<^verbatim>\<open>keys\<close> and the slice \<^verbatim>\<open>cpes\<close>; \<open>generatePackageCPEs_loops\<close> is the three nested
  loops (lines 116-133) from the empty state; the key is the text that
  \<^verbatim>\<open>fmt.Sprintf("%s|%s|%s|%s", ...)\<close> prints. The argument \<open>sorter\<close> is the behaviour
  of \<^verbatim>\<open>sort.Sort(ByCPESpecificity(cpes))\<close> (line 138).
\<close>

definition generatePackageCPEs_add ::
  "string \<Rightarrow> Package \<Rightarrow> string \<Rightarrow> string \<Rightarrow> string \<Rightarrow> string set \<times> CPE list
     \<Rightarrow> string set \<times> CPE list" where
  "generatePackageCPEs_add any p product vendor targetSw state =
     (case state of
        (keys, cpes) \<Rightarrow>
          (let key = product @ ''|'' @ vendor @ ''|'' @ Version p @ ''|'' @ targetSw
           in if key \<in> keys then (keys, cpes)
              else (insert key keys,
                    cpes @ [newCPE any product vendor (Version p) targetSw])))"

definition generatePackageCPEs_loops ::
  "string \<Rightarrow> Package \<Rightarrow> string list \<Rightarrow> string list \<Rightarrow> string list
     \<Rightarrow> string set \<times> CPE list" where
  "generatePackageCPEs_loops any p products vendors targetSws =
     fold (\<lambda>product.
             fold (\<lambda>vendor.
                     fold (\<lambda>targetSw. generatePackageCPEs_add any p product vendor targetSw)
                       ([any] @ targetSws))
               vendors)
       products ({}, [])"

definition generatePackageCPEs ::
  "string \<Rightarrow> sort_Sort \<Rightarrow> Package \<Rightarrow> error + CPE list" where
  "generatePackageCPEs any sorter p =
     (let targetSws = candidateTargetSoftwareAttrs p
      in case candidateVendors p of
           Inl e \<Rightarrow> Inl e
         | Inr vendors \<Rightarrow>
             (case candidateProducts p of
                Inl e \<Rightarrow> Inl e
              | Inr products \<Rightarrow>
                  if length products = 0 then Inr []
                  else
                    (let cpes = snd (generatePackageCPEs_loops any p products vendors targetSws);
                         cpes1 = filterCPEs cpes p (cpeFilters any)
                     in Inr (apply_sort_Sort sorter any cpes1))))"

section \<open>Candidate resolution in the words of the specification\<close>

text \<open>
  The definitions of this section do not come from the source. They write down what the
  specification says, to be compared with the functions of the source above.

  The Separator Normalizer on one token: the token itself; if it has a hyphen, the
  variant with every hyphen turned into an underscore and the variant with the hyphens
  removed; if it has an underscore, the variant with every underscore turned into a
  hyphen and the variant with the underscores removed.
\<close>

definition spec_normalizeSeparators :: "string \<Rightarrow> string list" where
  "spec_normalizeSeparators token =
     [token]
     @ (if CHR ''-'' \<in> set token
        then [map (\<lambda>c. if c = CHR ''-'' then CHR ''_'' else c) token,
              filter (\<lambda>c. c \<noteq> CHR ''-'') token]
        else [])
     @ (if CHR ''_'' \<in> set token
        then [map (\<lambda>c. if c = CHR ''_'' then CHR ''-'' else c) token,
              filter (\<lambda>c. c \<noteq> CHR ''_'') token]
        else [])"

text \<open>
  Removal of exact duplicates that preserves the first-seen order: every entry is kept
  where it occurs first, and its later occurrences are dropped.
\<close>

function spec_firstSeen :: "'a list \<Rightarrow> 'a list" where
  "spec_firstSeen [] = []"
| "spec_firstSeen (x # xs) = x # spec_firstSeen (removeAll x xs)"
  by pat_completeness auto

termination spec_firstSeen
  by (relation "measure length") (auto simp: less_Suc_eq_le length_removeAll_less_eq)

text \<open>
  Product resolution as the specification orders its steps (section 4.3): prepend the
  override aliases, normalize every candidate, expand every normalized candidate,
  remove duplicates.
\<close>

definition spec_candidateProducts :: "Package \<Rightarrow> error + string list" where
  "spec_candidateProducts p =
     (case candidateProducts_base p of
        Inl e \<Rightarrow> Inl e
      | Inr base \<Rightarrow>
          Inr (spec_firstSeen
                 (concat (map generateSubSelections
                    (concat (map spec_normalizeSeparators
                       (getCandidates productCandidatesByPkgType (Type p) (Name p) @ base)))))))"

text \<open>
  Vendor resolution as the specification has it (section 4.3): start from the base list
  of the product candidates, before normalization and before the override aliases;
  for Java with its metadata, append the vendor of the group identifier; for Go, take
  the module-path vendor alone; then normalize, expand and remove duplicates.
\<close>

definition spec_candidateVendors :: "Package \<Rightarrow> error + string list" where
  "spec_candidateVendors p =
     (case candidateProducts_base p of
        Inl e \<Rightarrow> Inl e
      | Inr base \<Rightarrow>
          (let vendors =
                 (if Language p = Go
                  then (if candidateVendorForGo (Name p) = '''' then []
                        else [candidateVendorForGo (Name p)])
                  else if Language p = Java \<and> MetadataType p = JavaMetadataType
                  then base @ candidateVendorsForJava p
                  else base)
           in Inr (spec_firstSeen
                     (concat (map generateSubSelections
                        (concat (map spec_normalizeSeparators vendors)))))))"

section \<open>Example packages\<close>

text \<open>The concrete packages at which the theorems below are evaluated.\<close>

definition springCorePackage :: Package where
  "springCorePackage =
     \<lparr>Name = ''spring-core'', Version = ''5.3.0'', Language = Java, Type = JavaPkg,
      MetadataType = JavaMetadataType, Metadata = JavaMetadata None\<rparr>"

definition hapiPackage :: Package where
  "hapiPackage =
     \<lparr>Name = ''hapi'', Version = ''20.0.0'', Language = JavaScript, Type = NpmPkg,
      MetadataType = OtherMetadataType, Metadata = OtherMetadata\<rparr>"

definition goModulePackage :: "string \<Rightarrow> Package" where
  "goModulePackage name =
     \<lparr>Name = name, Version = ''v1.0.0'', Language = Go, Type = GoModulePkg,
      MetadataType = OtherMetadataType, Metadata = OtherMetadata\<rparr>"

definition javaPackageWithGroupID :: "string \<Rightarrow> Package" where
  "javaPackageWithGroupID groupID =
     \<lparr>Name = ''example'', Version = ''1.0'', Language = Java, Type = JavaPkg,
      MetadataType = JavaMetadataType,
      Metadata = JavaMetadata (Some \<lparr>GroupID = groupID\<rparr>)\<rparr>"

definition jiraClientPackage :: Package where
  "jiraClientPackage =
     \<lparr>Name = ''client'', Version = ''0.5'', Language = Java, Type = JavaPkg,
      MetadataType = JavaMetadataType,
      Metadata = JavaMetadata (Some \<lparr>GroupID = ''com.atlassian.jira''\<rparr>)\<rparr>"

definition acmeWidgetPackage :: Package where
  "acmeWidgetPackage =
     \<lparr>Name = ''widget'', Version = ''2.1'', Language = Java, Type = JavaPkg,
      MetadataType = JavaMetadataType,
      Metadata = JavaMetadata (Some \<lparr>GroupID = ''org.acme.jenkins''\<rparr>)\<rparr>"

section \<open>Notions used to state the generator's properties\<close>

text \<open>
  The deduplication key of an identifier: the text that \<^verbatim>\<open>generatePackageCPEs\<close> prints
  for it into the string set \<^verbatim>\<open>keys\<close>.
\<close>

definition dedupKey :: "CPE \<Rightarrow> string" where
  "dedupKey c = Product c @ ''|'' @ Vendor c @ ''|'' @ AttrVersion c @ ''|'' @ TargetSW c"

text \<open>
  The invariant of the nested loops of \<^verbatim>\<open>generatePackageCPEs\<close>: \<^verbatim>\<open>keys\<close> holds exactly the
  keys of the identifiers in \<^verbatim>\<open>cpes\<close>, no two of which have the same key, and every
  identifier has the package's version.
\<close>

definition loops_invariant :: "Package \<Rightarrow> string set \<times> CPE list \<Rightarrow> bool" where
  "loops_invariant p state =
     (case state of
        (keys, cpes) \<Rightarrow>
          keys = dedupKey ` set cpes \<and> distinct (map dedupKey cpes)
          \<and> list_all (\<lambda>c. AttrVersion c = Version p) cpes)"

section \<open>Properties of the Sub-Selection Expander\<close>

lemmas expander_eval =
  generateSubSelections_def Scanner_tokens.simps scanHyphenOrUnderscore_def
  MaxScanTokenSize_def TrimFunc_def trimHyphenOrUnderscore_def string_of_uint8_def

lemma IndexAny_none: "set data \<inter> set chars = {} \<Longrightarrow> IndexAny data chars = - 1"
  by (induction data) (auto simp: Let_def)

lemma Scanner_tokens_Nil: "Scanner_tokens [] = []"
  by (subst Scanner_tokens.simps) (simp add: scanHyphenOrUnderscore_def MaxScanTokenSize_def)

lemma Scanner_tokens_separator_free:
  assumes "token \<noteq> []" and "set token \<inter> set ''-_'' = {}"
    and "length token < MaxScanTokenSize"
  shows "Scanner_tokens token = [token]"
proof -
  have "scanHyphenOrUnderscore (take MaxScanTokenSize token) (length token < MaxScanTokenSize)
          = (length token, Some token)"
    using assms by (simp add: scanHyphenOrUnderscore_def IndexAny_none)
  then show ?thesis
    using assms(1) by (subst Scanner_tokens.simps) (simp add: Scanner_tokens_Nil)
qed

lemma TrimFunc_no_match:
  assumes "token \<noteq> []" and "\<not> f (hd token)" and "\<not> f (last token)"
  shows "TrimFunc token f = token"
proof -
  have "dropWhile f token = token"
    using assms by (cases token) auto
  moreover have "dropWhile f (rev token) = rev token"
    using assms by (cases "rev token") (auto simp: last_rev hd_rev)
  ultimately show ?thesis by (simp add: TrimFunc_def)
qed

lemma generateSubSelections_separator_free:
  assumes "token \<noteq> []" and "set token \<inter> set ''-_'' = {}"
    and "length token < MaxScanTokenSize"
  shows "generateSubSelections token = [token]"
proof -
  have "hd token \<in> set token" and "last token \<in> set token"
    using assms(1) by simp_all
  with assms(2) have "\<not> trimHyphenOrUnderscore (hd token)"
    and "\<not> trimHyphenOrUnderscore (last token)"
    by (auto simp: trimHyphenOrUnderscore_def)
  then have "TrimFunc token trimHyphenOrUnderscore = token"
    using assms(1) by (simp add: TrimFunc_no_match)
  then show ?thesis
    using assms by (simp add: generateSubSelections_def Scanner_tokens_separator_free)
qed

text \<open>Before the first result is captured, \<open>lastToken\<close> is not read.\<close>

lemma generateSubSelections_loop_first:
  "generateSubSelections_loop tokens [] l1 = generateSubSelections_loop tokens [] l2"
  by (cases tokens) (simp_all add: Let_def)

lemma Scanner_tokens_leading_separator:
  assumes "trimHyphenOrUnderscore s"
  shows "Scanner_tokens (s # field) = [s] # Scanner_tokens field"
proof -
  have "scanHyphenOrUnderscore (take MaxScanTokenSize (s # field))
          (length (s # field) < MaxScanTokenSize) = (1, Some [s])"
    using assms
    by (auto simp: scanHyphenOrUnderscore_def MaxScanTokenSize_def trimHyphenOrUnderscore_def)
  then show ?thesis
    by (subst Scanner_tokens.simps) simp
qed

lemma generateSubSelections_leading_separator:
  assumes "trimHyphenOrUnderscore s"
  shows "generateSubSelections (s # field) = generateSubSelections field"
proof -
  have "TrimFunc [s] trimHyphenOrUnderscore = []"
    using assms by (simp add: TrimFunc_def)
  then show ?thesis
    using assms generateSubSelections_loop_first [of "Scanner_tokens field" s "CHR 0x00"]
    by (simp add: generateSubSelections_def Scanner_tokens_leading_separator)
qed

lemma generateSubSelections_too_long:
  "generateSubSelections (replicate 65536 (CHR ''a'')) = []"
proof -
  have "scanHyphenOrUnderscore (take MaxScanTokenSize (replicate 65536 (CHR ''a'')))
          (length (replicate 65536 (CHR ''a'')) < MaxScanTokenSize) = (0, None)"
    by (simp add: scanHyphenOrUnderscore_def MaxScanTokenSize_def IndexAny_none)
  then have "Scanner_tokens (replicate 65536 (CHR ''a'')) = []"
    by (subst Scanner_tokens.simps) simp
  then show ?thesis by (simp add: generateSubSelections_def)
qed

lemma generateSubSelections_a_b_c:
  "generateSubSelections ''a-b-c'' = [''a'', ''a-b'', ''a-b-c'']"
  by (simp add: expander_eval)

lemma generateSubSelections_double_separator:
  "generateSubSelections ''a--b'' = [''a'', ''a-b'']"
  by (simp add: expander_eval)

text \<open>
  Claim C5, as the code has it. For the token \<^verbatim>\<open>a-b-c\<close> the expander returns exactly
  \<^verbatim>\<open>a\<close>, \<^verbatim>\<open>a-b\<close>, \<^verbatim>\<open>a-b-c\<close>, in that order. For every separator-free token that is not
  empty and is shorter than the scanner's token limit it returns the one-element list
  holding the token; for the empty token it returns the empty list. A raw sub-token
  that is empty after trimming does not end the expansion: it adds no result, the loop
  goes on with the next sub-token (and takes the separator to join with from the
  sub-token just skipped), so a leading separator is skipped and \<^verbatim>\<open>a--b\<close> expands to
  \<^verbatim>\<open>a\<close>, \<^verbatim>\<open>a-b\<close>.
\<close>

theorem generateSubSelections_prefix_consistent:
  "generateSubSelections ''a-b-c'' = [''a'', ''a-b'', ''a-b-c'']
   \<and> (token \<noteq> [] \<and> set token \<inter> set ''-_'' = {} \<and> length token < MaxScanTokenSize
        \<longrightarrow> generateSubSelections token = [token])
   \<and> generateSubSelections [] = []
   \<and> (rawCandidate \<noteq> [] \<and> TrimFunc rawCandidate trimHyphenOrUnderscore = []
        \<longrightarrow> generateSubSelections_loop (rawCandidate # tokens) results lastToken
            = generateSubSelections_loop tokens results (last rawCandidate))
   \<and> (trimHyphenOrUnderscore s
        \<longrightarrow> generateSubSelections (s # field) = generateSubSelections field)
   \<and> generateSubSelections ''a--b'' = [''a'', ''a-b'']"
proof -
  have "generateSubSelections [] = []"
    by (simp add: generateSubSelections_def Scanner_tokens_Nil)
  moreover have "generateSubSelections_loop (rawCandidate # tokens) results lastToken
      = generateSubSelections_loop tokens results (last rawCandidate)"
    if "rawCandidate \<noteq> []" and "TrimFunc rawCandidate trimHyphenOrUnderscore = []"
    using that by simp
  ultimately show ?thesis
    using generateSubSelections_a_b_c generateSubSelections_double_separator
      generateSubSelections_separator_free [of token]
      generateSubSelections_leading_separator [of s field]
    by blast
qed

theorem generateSubSelections_prefix_consistent_witness:
  "generateSubSelections ''jenkins'' = [''jenkins'']
   \<and> generateSubSelections_loop [''-'', ''b''] [''a''] (CHR ''-'')
       = generateSubSelections_loop [''b''] [''a''] (CHR ''-'')
   \<and> generateSubSelections ''-a'' = generateSubSelections ''a''"
  using generateSubSelections_prefix_consistent
    [where token = "''jenkins''" and rawCandidate = "''-''" and tokens = "[''b'']"
       and results = "[''a'']" and lastToken = "CHR ''-''" and s = "CHR ''-''"
       and field = "''a''"]
  by (simp add: MaxScanTokenSize_def TrimFunc_def trimHyphenOrUnderscore_def)

text \<open>
  The claim as it was stated fails in three places: the second raw sub-token of
  \<^verbatim>\<open>a--b\<close> is empty after trimming and yet the third one is expanded; the empty token
  is separator-free and has no result; and neither has a separator-free token of 65536
  bytes, which the scanner refuses.
\<close>

theorem generateSubSelections_early_stop_counterexample:
  "Scanner_tokens ''a--b'' = [''a-'', ''-'', ''b'']
   \<and> TrimFunc ''-'' trimHyphenOrUnderscore = ''''
   \<and> generateSubSelections ''a--b'' = [''a'', ''a-b'']
   \<and> generateSubSelections '''' \<noteq> ['''']
   \<and> generateSubSelections (replicate 65536 (CHR ''a'')) \<noteq> [replicate 65536 (CHR ''a'')]"
proof -
  have "Scanner_tokens ''a--b'' = [''a-'', ''-'', ''b'']"
    by (simp add: Scanner_tokens.simps scanHyphenOrUnderscore_def MaxScanTokenSize_def)
  moreover have "TrimFunc ''-'' trimHyphenOrUnderscore = ''''"
    by (simp add: TrimFunc_def trimHyphenOrUnderscore_def)
  moreover have "generateSubSelections '''' \<noteq> ['''']"
    by (simp add: generateSubSelections_def Scanner_tokens_Nil)
  moreover have
    "generateSubSelections (replicate 65536 (CHR ''a'')) \<noteq> [replicate 65536 (CHR ''a'')]"
    by (simp only: generateSubSelections_too_long) simp
  ultimately show ?thesis
    using generateSubSelections_double_separator by blast
qed

section \<open>Properties of the Go module-path parser\<close>

lemmas go_eval =
  candidateProductForGo_def candidateVendorForGo_def url_Parse_def HasPrefix_def
  stringContainsCTLByte_def validHostByte_def validOptionalPort_def Trim_def TrimFunc_def

lemma url_Parse_Path:
  assumes "url_Parse (''http://'' @ name) = Some u"
  shows "Path u = dropWhile (\<lambda>c. c \<noteq> CHR ''/'')
                    (takeWhile (\<lambda>c. c \<noteq> CHR ''?'') (takeWhile (\<lambda>c. c \<noteq> CHR ''#'') name))"
proof -
  have pre: "takeWhile (\<lambda>c. c \<noteq> CHR ''#'') (''http://'' @ name)
               = ''http://'' @ takeWhile (\<lambda>c. c \<noteq> CHR ''#'') name"
    by simp
  show ?thesis
    using assms unfolding url_Parse_def pre
    by (auto simp: HasPrefix_def Let_def split: if_splits)
qed

lemma url_Parse_no_slash:
  assumes "CHR ''/'' \<notin> set name" and "url_Parse (''http://'' @ name) = Some u"
  shows "Path u = []"
proof -
  let ?rest = "takeWhile (\<lambda>c. c \<noteq> CHR ''?'') (takeWhile (\<lambda>c. c \<noteq> CHR ''#'') name)"
  have "\<And>c. c \<in> set ?rest \<Longrightarrow> c \<in> set name"
    by (blast dest: set_takeWhileD)
  with assms(1) have "\<forall>c \<in> set ?rest. c \<noteq> CHR ''/''"
    by blast
  then have "dropWhile (\<lambda>c. c \<noteq> CHR ''/'') ?rest = []"
    by (simp only: dropWhile_eq_Nil_conv)
  with assms(2) show ?thesis
    by (simp only: url_Parse_Path)
qed

lemma candidateProductForGo_no_slash:
  assumes "CHR ''/'' \<notin> set name"
  shows "candidateProductForGo name = Inr ''''"
proof (cases "url_Parse (''http://'' @ name)")
  case None
  then show ?thesis by (simp add: candidateProductForGo_def)
next
  case (Some u)
  with assms have "Path u = []" by (simp only: url_Parse_no_slash)
  with Some show ?thesis
    by (simp add: candidateProductForGo_def Trim_def TrimFunc_def Let_def)
qed

lemma candidateVendorForGo_no_slash:
  assumes "CHR ''/'' \<notin> set name"
  shows "candidateVendorForGo name =
     (case url_Parse (''http://'' @ name) of
        None \<Rightarrow> ''''
      | Some u \<Rightarrow>
          if Host u = ''google.golang.org'' then ''google''
          else if Host u = ''golang.org'' then ''golang'' else '''')"
proof (cases "url_Parse (''http://'' @ name)")
  case None
  then show ?thesis by (simp add: candidateVendorForGo_def)
next
  case (Some u)
  with assms have "Path u = []" by (simp only: url_Parse_no_slash)
  with Some show ?thesis
    by (simp add: candidateVendorForGo_def Trim_def TrimFunc_def Let_def)
qed

lemma go_examples:
  "candidateProductForGo ''golang.org/x/net'' = Inr ''x/net''"
  "candidateVendorForGo ''golang.org/x/net'' = ''golang''"
  "candidateProductForGo ''google.golang.org/grpc'' = Inr ''grpc''"
  "candidateVendorForGo ''google.golang.org/grpc'' = ''google''"
  "candidateProductForGo ''github.com/foo/bar'' = Inr ''bar''"
  "candidateVendorForGo ''github.com/foo/bar'' = ''foo''"
  by (simp_all add: go_eval)

text \<open>
  Claim C6, as the code has it. The name \<^verbatim>\<open>golang.org/x/net\<close> gives product \<^verbatim>\<open>x/net\<close>
  and vendor \<^verbatim>\<open>golang\<close>, \<^verbatim>\<open>google.golang.org/grpc\<close> gives \<^verbatim>\<open>grpc\<close> and \<^verbatim>\<open>google\<close>,
  \<^verbatim>\<open>github.com/foo/bar\<close> gives \<^verbatim>\<open>bar\<close> and \<^verbatim>\<open>foo\<close>. For every name without a slash the
  product is empty, and the vendor is empty as well unless the name's host is
  \<^verbatim>\<open>google.golang.org\<close> or \<^verbatim>\<open>golang.org\<close>: the vendor helper looks at the host before it
  looks at the path, and answers \<^verbatim>\<open>google\<close> or \<^verbatim>\<open>golang\<close> there.
\<close>

theorem go_module_path_parser:
  "candidateProductForGo ''golang.org/x/net'' = Inr ''x/net''
   \<and> candidateVendorForGo ''golang.org/x/net'' = ''golang''
   \<and> candidateProductForGo ''google.golang.org/grpc'' = Inr ''grpc''
   \<and> candidateVendorForGo ''google.golang.org/grpc'' = ''google''
   \<and> candidateProductForGo ''github.com/foo/bar'' = Inr ''bar''
   \<and> candidateVendorForGo ''github.com/foo/bar'' = ''foo''
   \<and> (CHR ''/'' \<notin> set name \<longrightarrow>
        candidateProductForGo name = Inr ''''
        \<and> candidateVendorForGo name =
            (case url_Parse (''http://'' @ name) of
               None \<Rightarrow> ''''
             | Some u \<Rightarrow>
                 if Host u = ''google.golang.org'' then ''google''
                 else if Host u = ''golang.org'' then ''golang'' else ''''))"
  using go_examples candidateProductForGo_no_slash [of name]
    candidateVendorForGo_no_slash [of name]
  by blast

theorem go_module_path_parser_witness:
  "candidateProductForGo ''justaname'' = Inr '''' \<and> candidateVendorForGo ''justaname'' = ''''"
  using go_module_path_parser [of "''justaname''"]
  by (simp add: url_Parse_def HasPrefix_def stringContainsCTLByte_def validHostByte_def
      validOptionalPort_def)

text \<open>
  The claim as it was stated fails for the slash-free name \<^verbatim>\<open>golang.org\<close>, whose
  vendor is \<^verbatim>\<open>golang\<close>.
\<close>

theorem go_bare_host_counterexample:
  "CHR ''/'' \<notin> set ''golang.org'' \<and> candidateVendorForGo ''golang.org'' = ''golang''"
  by (simp add: go_eval)

section \<open>Properties of the Java group-identifier derivation\<close>

lemma HasAnyOfPrefixes_iff:
  "HasAnyOfPrefixes input prefixes = (\<exists>pre \<in> set prefixes. HasPrefix input pre)"
  by (induction prefixes) auto

text \<open>
  Claim C7, as the code has it. The derivation returns the empty product and the empty
  vendor when the group identifier is empty, or starts with an entry of the exclusion
  list, or starts with neither \<^verbatim>\<open>com\<close> nor \<^verbatim>\<open>org\<close>, or has fewer than three
  dot-separated fields; otherwise it returns the third field as product and the second
  as vendor. These two fields may be empty themselves, so an empty result does not mean
  that one of the four conditions held.
\<close>

theorem productAndVendorFromPomPropertiesGroupID_cases:
  "productAndVendorFromPomPropertiesGroupID p =
     (let groupID = groupIDFromPomProperties p;
          fields = Split groupID (CHR ''.'')
      in if groupID = ''''
            \<or> (\<exists>excluded \<in> set (JiraPluginPomPropertiesGroupID
                                   # JenkinsPluginPomPropertiesGroupIDs).
                  HasPrefix groupID excluded)
            \<or> \<not> (HasPrefix groupID ''com'' \<or> HasPrefix groupID ''org'')
            \<or> length fields < 3
         then ('''', '''')
         else (fields ! 2, fields ! 1))"
  by (simp add: productAndVendorFromPomPropertiesGroupID_def shouldConsiderGroupID_def
      HasAnyOfPrefixes_iff Let_def)

theorem productAndVendorFromPomPropertiesGroupID_cases_witness:
  "productAndVendorFromPomPropertiesGroupID (javaPackageWithGroupID ''org.apache.commons'')
     = (''commons'', ''apache'')
   \<and> productAndVendorFromPomPropertiesGroupID (javaPackageWithGroupID ''com.x'') = ('''', '''')
   \<and> productAndVendorFromPomPropertiesGroupID
        (javaPackageWithGroupID ''org.jenkins-ci.plugins.workflow.aggregator'') = ('''', '''')"
  using productAndVendorFromPomPropertiesGroupID_cases
      [of "javaPackageWithGroupID ''org.apache.commons''"]
    productAndVendorFromPomPropertiesGroupID_cases [of "javaPackageWithGroupID ''com.x''"]
    productAndVendorFromPomPropertiesGroupID_cases
      [of "javaPackageWithGroupID ''org.jenkins-ci.plugins.workflow.aggregator''"]
  by (simp add: javaPackageWithGroupID_def groupIDFromPomProperties_def HasPrefix_def
      JiraPluginPomPropertiesGroupID_def JenkinsPluginPomPropertiesGroupIDs_def)

text \<open>
  The claim as it was stated ("exactly when") fails for the group identifier
  \<^verbatim>\<open>com..\<close>: none of the four conditions holds, and the result is empty.
\<close>

theorem productAndVendorFromPomPropertiesGroupID_empty_fields_counterexample:
  "productAndVendorFromPomPropertiesGroupID (javaPackageWithGroupID ''com..'') = ('''', '''')
   \<and> groupIDFromPomProperties (javaPackageWithGroupID ''com..'') = ''com..''
   \<and> ''com..'' \<noteq> ''''
   \<and> \<not> HasAnyOfPrefixes ''com..''
         (JiraPluginPomPropertiesGroupID # JenkinsPluginPomPropertiesGroupIDs)
   \<and> HasAnyOfPrefixes ''com..'' [''com'', ''org'']
   \<and> \<not> length (Split ''com..'' (CHR ''.'')) < 3"
  by (simp add: productAndVendorFromPomPropertiesGroupID_def shouldConsiderGroupID_def
      javaPackageWithGroupID_def groupIDFromPomProperties_def HasPrefix_def
      JiraPluginPomPropertiesGroupID_def JenkinsPluginPomPropertiesGroupIDs_def)

section \<open>The list loops\<close>

text \<open>A loop that only appends to its accumulator concatenates what it appends.\<close>

lemma fold_append_concat:
  "fold (\<lambda>x acc. acc @ g x) xs acc = acc @ concat (map g xs)"
  by (induction xs arbitrary: acc) simp_all

lemma Contains_char: "Contains s [c] = (c \<in> set s)"
  by (induction s) (auto simp: HasPrefix_def)

lemma ReplaceAll_char: "ReplaceAll s old [new] = map (\<lambda>c. if c = old then new else c) s"
  by (induction s) (simp_all add: ReplaceAll_def)

lemma ReplaceAll_empty: "ReplaceAll s old [] = filter (\<lambda>c. c \<noteq> old) s"
  by (induction s) (simp_all add: ReplaceAll_def)

lemma normalizeAllSeparators_concat:
  "normalizeAllSeparators tokens = concat (map spec_normalizeSeparators tokens)"
proof -
  have "(\<lambda>field results.
            (let results1 = results @ [field];
                 hasHyphen = Contains field ''-'';
                 hasUnderscore = Contains field ''_'';
                 results2 =
                   (if hasHyphen
                    then (results1 @ [ReplaceAll field (CHR ''-'') ''_''])
                           @ [ReplaceAll field (CHR ''-'') '''']
                    else results1);
                 results3 =
                   (if hasUnderscore
                    then (results2 @ [ReplaceAll field (CHR ''_'') ''-''])
                           @ [ReplaceAll field (CHR ''_'') '''']
                    else results2)
             in results3))
        = (\<lambda>field results. results @ spec_normalizeSeparators field)"
    by (intro ext)
      (simp add: Let_def spec_normalizeSeparators_def Contains_char ReplaceAll_char
        ReplaceAll_empty)
  then show ?thesis
    by (simp add: normalizeAllSeparators_def fold_append_concat)
qed

lemma normalizeAllSeparators_Nil: "normalizeAllSeparators [] = []"
  by (simp add: normalizeAllSeparators_def)

lemma normalizeAllSeparators_keeps: "set tokens \<subseteq> set (normalizeAllSeparators tokens)"
  by (auto simp: normalizeAllSeparators_concat spec_normalizeSeparators_def)

lemma generateAllSubSelections_concat:
  "generateAllSubSelections tokens = concat (map generateSubSelections tokens)"
  by (simp add: generateAllSubSelections_def fold_append_concat)

text \<open>
  The loop of \<open>removeDuplicateValues\<close> from any state: what it appends are the first
  occurrences of the entries that were not observed before.
\<close>

lemma removeDuplicateValues_fold:
  "fold (\<lambda>entry (observed, results).
           if entry \<notin> observed then (insert entry observed, results @ [entry])
           else (observed, results))
     values (observed, results)
   = (observed \<union> set values,
      results @ spec_firstSeen (filter (\<lambda>entry. entry \<notin> observed) values))"
proof (induction "values" arbitrary: observed results)
  case Nil
  then show ?case by simp
next
  case (Cons entry "values")
  show ?case
  proof (cases "entry \<in> observed")
    case True
    then show ?thesis by (simp add: Cons.IH insert_absorb)
  next
    case False
    have "removeAll entry (filter (\<lambda>e. e \<notin> observed) values)
            = filter (\<lambda>e. e \<notin> insert entry observed) values"
      by (induction "values") auto
    with False show ?thesis by (simp add: Cons.IH)
  qed
qed

lemma removeDuplicateValues_firstSeen: "removeDuplicateValues values = spec_firstSeen values"
  by (simp add: removeDuplicateValues_def removeDuplicateValues_fold)

lemma set_spec_firstSeen: "set (spec_firstSeen xs) = set xs"
  by (induction xs rule: spec_firstSeen.induct) auto

lemma distinct_spec_firstSeen: "distinct (spec_firstSeen xs)"
  by (induction xs rule: spec_firstSeen.induct) (auto simp: set_spec_firstSeen)

lemma set_removeDuplicateValues: "set (removeDuplicateValues values) = set values"
  by (simp add: removeDuplicateValues_firstSeen set_spec_firstSeen)

lemma distinct_removeDuplicateValues: "distinct (removeDuplicateValues values)"
  by (simp add: removeDuplicateValues_firstSeen distinct_spec_firstSeen)

lemma removeDuplicateValues_Nil: "removeDuplicateValues [] = []"
  by (simp add: removeDuplicateValues_def)

text \<open>\<open>filterCPEs\<close> keeps, in order, the identifiers for which no filter fires.\<close>

lemma filterCPEs_filter:
  "filterCPEs cpes p filters = filter (\<lambda>cpe. \<not> list_ex (\<lambda>fn. fn cpe p) filters) cpes"
proof -
  have "(\<lambda>cpe result. if list_ex (\<lambda>fn. fn cpe p) filters then result else result @ [cpe])
          = (\<lambda>cpe result. result @ (if list_ex (\<lambda>fn. fn cpe p) filters then [] else [cpe]))"
    by (intro ext) simp
  then have "filterCPEs cpes p filters
      = concat (map (\<lambda>cpe. if list_ex (\<lambda>fn. fn cpe p) filters then [] else [cpe]) cpes)"
    by (simp add: filterCPEs_def fold_append_concat)
  also have "\<dots> = filter (\<lambda>cpe. \<not> list_ex (\<lambda>fn. fn cpe p) filters) cpes"
    by (induction cpes) simp_all
  finally show ?thesis .
qed

text \<open>The candidate resolvers never raise the fault.\<close>

lemma Split_nonempty: "Split s sep \<noteq> []"
  by (induction s) (auto split: list.splits)

lemma candidateProductForGo_total: "\<exists>product. candidateProductForGo name = Inr product"
  using Split_nonempty [of "Trim (Path u) ''/''" "CHR ''/''" for u]
  by (auto simp: candidateProductForGo_def Let_def split: option.splits list.splits)

lemma candidateProducts_base_total: "\<exists>base. candidateProducts_base p = Inr base"
  using candidateProductForGo_total [of "Name p"]
  by (auto simp: candidateProducts_base_def Let_def)

lemma candidateProducts_total: "\<exists>products. candidateProducts p = Inr products"
  using candidateProducts_base_total [of p]
  by (auto simp: candidateProducts_def Let_def)

lemma candidateVendors_total: "\<exists>vendors. candidateVendors p = Inr vendors"
  using candidateProducts_total [of p]
  by (auto simp: candidateVendors_def Let_def)

lemma generatePackageCPEs_total: "\<exists>cpes. generatePackageCPEs any sorter p = Inr cpes"
  using candidateProducts_total [of p] candidateVendors_total [of p]
  by (auto simp: generatePackageCPEs_def Let_def)

section \<open>Empty candidate lists\<close>

lemma fold_no_vendors: "fold (\<lambda>product. id) products state = state"
  by (induction products) simp_all

lemma generatePackageCPEs_loops_no_vendors:
  "generatePackageCPEs_loops any p products [] targetSws = ({}, [])"
  by (simp add: generatePackageCPEs_loops_def fold_no_vendors)

lemma generatePackageCPEs_no_products:
  assumes "candidateProducts p = Inr []"
  shows "generatePackageCPEs any sorter p = Inr []"
  using assms candidateVendors_total [of p]
  by (auto simp: generatePackageCPEs_def)

lemma generatePackageCPEs_no_vendors:
  assumes "candidateVendors p = Inr []"
  shows "generatePackageCPEs any sorter p = Inr []"
  using assms candidateProducts_total [of p]
  by (auto simp: generatePackageCPEs_def generatePackageCPEs_loops_no_vendors filterCPEs_def
      apply_sort_Sort_Nil)

lemmas resolve_eval =
  candidateProducts_def candidateProducts_base_def candidateVendors_def
  getCandidates_def productCandidatesByPkgType_def
  normalizeAllSeparators_def removeDuplicateValues_def generateAllSubSelections_def
  ReplaceAll_def HasPrefix_def

text \<open>
  Claim C3. When the resolved product-candidate list of a package is empty, and likewise
  when its resolved vendor-candidate list is empty, the generator returns the empty
  identifier list, and returns it as a value (\<open>Inr\<close>), not as a fault.
\<close>

theorem generatePackageCPEs_empty_candidates:
  "candidateProducts p = Inr [] \<or> candidateVendors p = Inr []
   \<Longrightarrow> generatePackageCPEs any sorter p = Inr []"
  using generatePackageCPEs_no_products [of p any sorter]
    generatePackageCPEs_no_vendors [of p any sorter]
  by blast

theorem generatePackageCPEs_empty_candidates_witness:
  "candidateProducts (goModulePackage ''justaname'') = Inr []
   \<and> generatePackageCPEs ''*'' stableSort (goModulePackage ''justaname'') = Inr []
   \<and> candidateVendors (goModulePackage ''gopkg.in/check.v1'') = Inr []
   \<and> generatePackageCPEs ''*'' stableSort (goModulePackage ''gopkg.in/check.v1'') = Inr []"
proof -
  have products: "candidateProducts (goModulePackage ''justaname'') = Inr []"
    by (simp add: resolve_eval goModulePackage_def go_eval)
  have vendors: "candidateVendors (goModulePackage ''gopkg.in/check.v1'') = Inr []"
    by (simp add: resolve_eval goModulePackage_def go_eval)
  show ?thesis
    using products vendors
      generatePackageCPEs_empty_candidates
        [of "goModulePackage ''justaname''" "''*''" stableSort]
      generatePackageCPEs_empty_candidates
        [of "goModulePackage ''gopkg.in/check.v1''" "''*''" stableSort]
    by simp
qed

section \<open>Go packages hosted at gopkg.in\<close>

lemma candidateVendors_Go:
  assumes "Language p = Go"
  shows "candidateVendors p =
     Inr (removeDuplicateValues (generateAllSubSelections (normalizeAllSeparators
            (if candidateVendorForGo (Name p) \<noteq> '''' then [candidateVendorForGo (Name p)]
             else []))))"
  using assms candidateProducts_total [of p]
  by (auto simp: candidateVendors_def Let_def)

text \<open>
  Claim C10. For every Go-language package whose name parses to the host \<^verbatim>\<open>gopkg.in\<close>
  the Go vendor helper returns the empty string, the vendor candidate list is empty,
  and the generator returns the empty identifier list (no identifier with a wildcard
  vendor takes its place), although the Go product helper returns the trimmed path
  of the name, which is the product candidate \<^verbatim>\<open>yaml.v2\<close> for \<^verbatim>\<open>gopkg.in/yaml.v2\<close>.
\<close>

theorem gopkg_in_no_identifiers:
  assumes "Language p = Go" and "url_Parse (''http://'' @ Name p) = Some u"
    and "Host u = ''gopkg.in''"
  shows "candidateVendorForGo (Name p) = ''''
     \<and> candidateVendors p = Inr []
     \<and> generatePackageCPEs any sorter p = Inr []
     \<and> candidateProductForGo (Name p) = Inr (Trim (Path u) ''/'')"
proof -
  have vendor: "candidateVendorForGo (Name p) = ''''"
    using assms(2,3) by (simp add: candidateVendorForGo_def)
  then have vendors: "candidateVendors p = Inr []"
    using assms(1)
    by (simp add: candidateVendors_Go normalizeAllSeparators_Nil generateAllSubSelections_def
        removeDuplicateValues_Nil)
  have "candidateProductForGo (Name p) = Inr (Trim (Path u) ''/'')"
    using assms(2,3) by (simp add: candidateProductForGo_def)
  with vendor vendors show ?thesis
    by (simp add: generatePackageCPEs_no_vendors)
qed

theorem gopkg_in_no_identifiers_witness:
  "Language (goModulePackage ''gopkg.in/yaml.v2'') = Go
   \<and> url_Parse (''http://'' @ Name (goModulePackage ''gopkg.in/yaml.v2''))
       = Some \<lparr>Host = ''gopkg.in'', Path = ''/yaml.v2''\<rparr>
   \<and> candidateProducts (goModulePackage ''gopkg.in/yaml.v2'') = Inr [''yaml.v2'']
   \<and> candidateVendorForGo ''gopkg.in/yaml.v2'' = ''''
   \<and> candidateVendors (goModulePackage ''gopkg.in/yaml.v2'') = Inr []
   \<and> generatePackageCPEs ''*'' stableSort (goModulePackage ''gopkg.in/yaml.v2'') = Inr []"
proof -
  have lang: "Language (goModulePackage ''gopkg.in/yaml.v2'') = Go"
    by (simp add: goModulePackage_def)
  have url: "url_Parse (''http://'' @ Name (goModulePackage ''gopkg.in/yaml.v2''))
       = Some \<lparr>Host = ''gopkg.in'', Path = ''/yaml.v2''\<rparr>"
    by (simp add: goModulePackage_def url_Parse_def HasPrefix_def stringContainsCTLByte_def
        validHostByte_def validOptionalPort_def)
  have products: "candidateProducts (goModulePackage ''gopkg.in/yaml.v2'') = Inr [''yaml.v2'']"
    by (simp add: resolve_eval goModulePackage_def go_eval)
  have name: "Name (goModulePackage ''gopkg.in/yaml.v2'') = ''gopkg.in/yaml.v2''"
    by (simp add: goModulePackage_def)
  show ?thesis
    using lang url products
      gopkg_in_no_identifiers [OF lang url, of "''*''" stableSort]
    by (simp add: name)
qed

section \<open>Properties of product and vendor resolution\<close>

lemmas java_eval =
  candidateProductsForJava_def candidateVendorsForJava_def
  productAndVendorFromPomPropertiesGroupID_def groupIDFromPomProperties_def
  shouldConsiderGroupID_def

lemmas spec_eval =
  spec_candidateProducts_def spec_candidateVendors_def spec_normalizeSeparators_def
  candidateProducts_base_def getCandidates_def productCandidatesByPkgType_def HasPrefix_def

lemma candidateProducts_pipeline:
  assumes "candidateProducts_base p = Inr base"
  shows "candidateProducts p =
     Inr (spec_firstSeen
            (getCandidates productCandidatesByPkgType (Type p) (Name p)
             @ concat (map spec_normalizeSeparators base)))"
  using assms
  by (simp add: candidateProducts_def removeDuplicateValues_firstSeen
      normalizeAllSeparators_concat)

text \<open>
  Claim C1, as the code has it. After the ecosystem-specific augmentation, product
  resolution applies the Separator Normalizer to every name-derived candidate, then
  prepends the override aliases of the package's type and name as they stand, then
  removes exact duplicates in first-seen order. The aliases are not normalized, and the
  Sub-Selection Expander is applied to no product candidate. The final list has no
  duplicates and holds every alias and every name-derived candidate verbatim.
\<close>

theorem candidateProducts_steps:
  assumes "candidateProducts_base p = Inr base"
  shows "\<exists>products.
     candidateProducts p = Inr products
     \<and> products =
         spec_firstSeen
           (getCandidates productCandidatesByPkgType (Type p) (Name p)
            @ concat (map spec_normalizeSeparators base))
     \<and> distinct products
     \<and> set products =
         set (getCandidates productCandidatesByPkgType (Type p) (Name p))
         \<union> (\<Union>candidate \<in> set base. set (spec_normalizeSeparators candidate))"
  using candidateProducts_pipeline [OF assms]
  by (simp add: distinct_spec_firstSeen set_spec_firstSeen)

theorem candidateProducts_steps_witness:
  "candidateProducts_base springCorePackage = Inr [''spring-core'']
   \<and> candidateProducts springCorePackage
       = Inr [''spring_framework'', ''springsource_spring_framework'', ''spring-core'',
              ''spring_core'', ''springcore'']"
proof -
  have base: "candidateProducts_base springCorePackage = Inr [''spring-core'']"
    by (simp add: candidateProducts_base_def springCorePackage_def java_eval)
  have "getCandidates productCandidatesByPkgType (Type springCorePackage)
          (Name springCorePackage)
        = [''spring_framework'', ''springsource_spring_framework'']"
    by (simp add: getCandidates_def productCandidatesByPkgType_def springCorePackage_def)
  then show ?thesis
    using base candidateProducts_steps [OF base]
    by (auto simp: spec_normalizeSeparators_def)
qed

text \<open>
  The claim as it was stated fails for the Java package \<^verbatim>\<open>spring-core\<close>: the order of
  the specification would give thirteen candidates, among them \<^verbatim>\<open>spring\<close> and
  \<^verbatim>\<open>spring-framework\<close>; the code gives five, with the aliases neither normalized nor
  expanded and the name not expanded.
\<close>

theorem candidateProducts_order_counterexample:
  "candidateProducts springCorePackage
     = Inr [''spring_framework'', ''springsource_spring_framework'', ''spring-core'',
            ''spring_core'', ''springcore'']
   \<and> spec_candidateProducts springCorePackage
       = Inr [''spring'', ''spring_framework'', ''spring-framework'', ''springframework'',
              ''springsource'', ''springsource_spring'', ''springsource_spring_framework'',
              ''springsource-spring'', ''springsource-spring-framework'',
              ''springsourcespringframework'', ''spring-core'', ''spring_core'',
              ''springcore'']"
proof -
  have "candidateProducts springCorePackage
     = Inr [''spring_framework'', ''springsource_spring_framework'', ''spring-core'',
            ''spring_core'', ''springcore'']"
    by (simp add: resolve_eval springCorePackage_def java_eval)
  moreover have "spec_candidateProducts springCorePackage
       = Inr [''spring'', ''spring_framework'', ''spring-framework'', ''springframework'',
              ''springsource'', ''springsource_spring'', ''springsource_spring_framework'',
              ''springsource-spring'', ''springsource-spring-framework'',
              ''springsourcespringframework'', ''spring-core'', ''spring_core'',
              ''springcore'']"
    by (simp add: spec_eval springCorePackage_def java_eval expander_eval)
  ultimately show ?thesis by blast
qed

text \<open>Every alias of the override table is the last of its own sub-selections.\<close>

lemma getCandidates_aliases:
  "aka \<in> set (getCandidates productCandidatesByPkgType t n) \<Longrightarrow>
   aka \<in> set [''spring_framework'', ''springsource_spring_framework'',
     ''hapi_server_framework'', ''handlebars'', ''is_my_json_valid'', ''mustache.js'',
     ''arabic_prawn'', ''basespace_ruby_sdk'', ''creme_fraiche'', ''html_sanitizer'',
     ''raven-ruby'', ''redcloth_library'', ''vladtheenterprising'', ''yajl-ruby_gem'',
     ''rrdtool'']"
  by (cases t) (auto simp: getCandidates_def productCandidatesByPkgType_def split: if_splits)

lemma aliases_expand_to_themselves:
  "\<forall>aka \<in> set [''spring_framework'', ''springsource_spring_framework'',
     ''hapi_server_framework'', ''handlebars'', ''is_my_json_valid'', ''mustache.js'',
     ''arabic_prawn'', ''basespace_ruby_sdk'', ''creme_fraiche'', ''html_sanitizer'',
     ''raven-ruby'', ''redcloth_library'', ''vladtheenterprising'', ''yajl-ruby_gem'',
     ''rrdtool'']. aka \<in> set (generateSubSelections aka)"
  by (simp add: expander_eval)

lemma alias_in_own_expansion:
  "aka \<in> set (getCandidates productCandidatesByPkgType t n)
   \<Longrightarrow> aka \<in> set (generateSubSelections aka)"
  using getCandidates_aliases [of aka t n] aliases_expand_to_themselves by blast

lemma candidateVendors_pipeline:
  assumes "candidateProducts p = Inr products"
  shows "candidateVendors p =
     Inr (spec_firstSeen (concat (map generateSubSelections (concat (map spec_normalizeSeparators
            (if Language p = Go
             then (if candidateVendorForGo (Name p) = '''' then []
                   else [candidateVendorForGo (Name p)])
             else if Language p = Java \<and> MetadataType p = JavaMetadataType
             then products @ candidateVendorsForJava p
             else products))))))"
  using assms
  by (cases "Language p")
    (simp_all add: candidateVendors_def Let_def removeDuplicateValues_firstSeen
      normalizeAllSeparators_concat generateAllSubSelections_concat)

lemma candidateVendors_expansions:
  assumes "candidateProducts p = Inr products" and "candidateVendors p = Inr vendors"
    and "Language p \<noteq> Go" and "candidate \<in> set products"
  shows "set (generateSubSelections candidate) \<subseteq> set vendors"
proof -
  let ?start = "if Language p = Java \<and> MetadataType p = JavaMetadataType
                then products @ candidateVendorsForJava p else products"
  have "candidate \<in> set ?start"
    using assms(4) by simp
  moreover have "candidate \<in> set (spec_normalizeSeparators candidate)"
    by (simp add: spec_normalizeSeparators_def)
  ultimately have "set (generateSubSelections candidate)
      \<subseteq> set (concat (map generateSubSelections (concat (map spec_normalizeSeparators ?start))))"
    by fastforce
  moreover have "vendors = spec_firstSeen
      (concat (map generateSubSelections (concat (map spec_normalizeSeparators ?start))))"
    using candidateVendors_pipeline [OF assms(1)] assms(2,3) by simp
  ultimately show ?thesis
    by (simp add: set_spec_firstSeen)
qed

text \<open>
  Claim C2, as the code has it. Vendor resolution starts from the resolved product
  candidates, that is, after normalization, after the override aliases were prepended
  and after duplicate removal. For a package that is not a Go package the vendor list
  is what the Separator Normalizer, the Sub-Selection Expander and duplicate removal make
  of the product candidates (and of the group identifier's vendor for Java with its
  metadata), so every sub-selection of every product candidate and every override alias
  of the package's type and name is a vendor candidate. For a Go package the list is
  made of the module-path vendor alone.
\<close>

theorem candidateVendors_from_products:
  assumes "candidateProducts p = Inr products" and "candidateVendors p = Inr vendors"
  shows "vendors =
       spec_firstSeen (concat (map generateSubSelections (concat (map spec_normalizeSeparators
         (if Language p = Go
          then (if candidateVendorForGo (Name p) = '''' then []
                else [candidateVendorForGo (Name p)])
          else if Language p = Java \<and> MetadataType p = JavaMetadataType
          then products @ candidateVendorsForJava p
          else products)))))
     \<and> (Language p \<noteq> Go \<longrightarrow>
          (\<forall>candidate \<in> set products. set (generateSubSelections candidate) \<subseteq> set vendors)
          \<and> set (getCandidates productCandidatesByPkgType (Type p) (Name p)) \<subseteq> set vendors)"
proof -
  have pipeline: "vendors =
       spec_firstSeen (concat (map generateSubSelections (concat (map spec_normalizeSeparators
         (if Language p = Go
          then (if candidateVendorForGo (Name p) = '''' then []
                else [candidateVendorForGo (Name p)])
          else if Language p = Java \<and> MetadataType p = JavaMetadataType
          then products @ candidateVendorsForJava p
          else products)))))"
    using candidateVendors_pipeline [OF assms(1)] assms(2) by simp
  have expansions: "set (generateSubSelections candidate) \<subseteq> set vendors"
    if "Language p \<noteq> Go" and "candidate \<in> set products" for candidate
    using candidateVendors_expansions [OF assms that] .
  have aliases: "aka \<in> set vendors"
    if "Language p \<noteq> Go"
      and "aka \<in> set (getCandidates productCandidatesByPkgType (Type p) (Name p))" for aka
  proof -
    obtain base where base: "candidateProducts_base p = Inr base"
      using candidateProducts_base_total [of p] by blast
    have "aka \<in> set products"
      using candidateProducts_pipeline [OF base] assms(1) that(2)
      by (auto simp: set_spec_firstSeen)
    then have "set (generateSubSelections aka) \<subseteq> set vendors"
      using expansions that(1) by blast
    then show ?thesis
      using alias_in_own_expansion [OF that(2)] by blast
  qed
  from pipeline expansions aliases show ?thesis by blast
qed

theorem candidateVendors_from_products_witness:
  "candidateProducts hapiPackage = Inr [''hapi_server_framework'', ''hapi'']
   \<and> candidateVendors hapiPackage
       = Inr [''hapi'', ''hapi_server'', ''hapi_server_framework'', ''hapi-server'',
              ''hapi-server-framework'', ''hapiserverframework'']
   \<and> set (getCandidates productCandidatesByPkgType (Type hapiPackage) (Name hapiPackage))
       \<subseteq> set [''hapi'', ''hapi_server'', ''hapi_server_framework'', ''hapi-server'',
              ''hapi-server-framework'', ''hapiserverframework'']"
proof -
  have products: "candidateProducts hapiPackage = Inr [''hapi_server_framework'', ''hapi'']"
    by (simp add: resolve_eval hapiPackage_def)
  have vendors: "candidateVendors hapiPackage
       = Inr [''hapi'', ''hapi_server'', ''hapi_server_framework'', ''hapi-server'',
              ''hapi-server-framework'', ''hapiserverframework'']"
    unfolding candidateVendors_def products
    by (simp add: hapiPackage_def normalizeAllSeparators_def removeDuplicateValues_def
        generateAllSubSelections_def ReplaceAll_def HasPrefix_def expander_eval)
  have "Language hapiPackage \<noteq> Go"
    by (simp add: hapiPackage_def)
  then have "set (getCandidates productCandidatesByPkgType (Type hapiPackage)
                 (Name hapiPackage))
       \<subseteq> set [''hapi'', ''hapi_server'', ''hapi_server_framework'', ''hapi-server'',
              ''hapi-server-framework'', ''hapiserverframework'']"
    using candidateVendors_from_products [OF products vendors] by blast
  with products vendors show ?thesis by blast
qed

text \<open>
  The claim as it was stated fails for the npm package \<^verbatim>\<open>hapi\<close>: its override aka
  \<^verbatim>\<open>hapi_server_framework\<close> is a vendor candidate, with its variants and sub-selections,
  while vendor resolution from the base list would give \<^verbatim>\<open>hapi\<close> alone.
\<close>

theorem candidateVendors_override_counterexample:
  "getCandidates productCandidatesByPkgType (Type hapiPackage) (Name hapiPackage)
     = [''hapi_server_framework'']
   \<and> candidateProducts_base hapiPackage = Inr [''hapi'']
   \<and> candidateVendors hapiPackage
       = Inr [''hapi'', ''hapi_server'', ''hapi_server_framework'', ''hapi-server'',
              ''hapi-server-framework'', ''hapiserverframework'']
   \<and> spec_candidateVendors hapiPackage = Inr [''hapi'']"
proof -
  have "candidateProducts hapiPackage = Inr [''hapi_server_framework'', ''hapi'']"
    by (simp add: resolve_eval hapiPackage_def)
  then have "candidateVendors hapiPackage
       = Inr [''hapi'', ''hapi_server'', ''hapi_server_framework'', ''hapi-server'',
              ''hapi-server-framework'', ''hapiserverframework'']"
    unfolding candidateVendors_def
    by (simp add: hapiPackage_def normalizeAllSeparators_def removeDuplicateValues_def
        generateAllSubSelections_def ReplaceAll_def HasPrefix_def expander_eval)
  moreover have "spec_candidateVendors hapiPackage = Inr [''hapi'']"
    by (simp add: spec_eval hapiPackage_def expander_eval)
  moreover have "getCandidates productCandidatesByPkgType (Type hapiPackage)
      (Name hapiPackage) = [''hapi_server_framework'']"
    by (simp add: getCandidates_def productCandidatesByPkgType_def hapiPackage_def)
  moreover have "candidateProducts_base hapiPackage = Inr [''hapi'']"
    by (simp add: candidateProducts_base_def hapiPackage_def)
  ultimately show ?thesis by blast
qed

section \<open>Properties of the candidate generator\<close>

lemmas java_eval_all =
  java_eval JiraPluginPomPropertiesGroupID_def JenkinsPluginPomPropertiesGroupIDs_def

lemmas gen_eval =
  generatePackageCPEs_def generatePackageCPEs_loops_def generatePackageCPEs_add_def
  candidateTargetSoftwareAttrs_def candidateTargetSoftwareAttrsForJava_def filterCPEs_def
  cpeFilters_def newCPE_def NewAttributesWithAny_def countWildcardFields_def
  ByCPESpecificity_Less_def ToLower_def toLowerByte_def char_of_eq_iff apply_stableSort

lemma fold_invariant:
  assumes "\<And>x state. I state \<Longrightarrow> I (f x state)" and "I state"
  shows "I (fold f xs state)"
  using assms(2) by (induction xs arbitrary: state) (simp_all add: assms(1))

lemma dedupKey_newCPE:
  "dedupKey (newCPE any product vendor version targetSw)
     = product @ ''|'' @ vendor @ ''|'' @ version @ ''|'' @ targetSw"
  by (simp add: dedupKey_def newCPE_def NewAttributesWithAny_def)

lemma generatePackageCPEs_add_invariant:
  assumes "loops_invariant p state"
  shows "loops_invariant p (generatePackageCPEs_add any p product vendor targetSw state)"
proof (cases state)
  case (Pair keys cpes)
  have "AttrVersion (newCPE any product vendor (Version p) targetSw) = Version p"
    by (simp add: newCPE_def NewAttributesWithAny_def)
  with assms Pair show ?thesis
    by (auto simp: loops_invariant_def generatePackageCPEs_add_def Let_def dedupKey_newCPE)
qed

lemma generatePackageCPEs_loops_invariant:
  "loops_invariant p (generatePackageCPEs_loops any p products vendors targetSws)"
  unfolding generatePackageCPEs_loops_def
proof (rule fold_invariant)
  show "loops_invariant p ({}, [])"
    by (simp add: loops_invariant_def)
next
  fix product state
  assume "loops_invariant p state"
  then show "loops_invariant p
      (fold (\<lambda>vendor.
               fold (\<lambda>targetSw. generatePackageCPEs_add any p product vendor targetSw)
                 ([any] @ targetSws))
         vendors state)"
  proof (rule fold_invariant [rotated])
    fix vendor state'
    assume "loops_invariant p state'"
    then show "loops_invariant p
        (fold (\<lambda>targetSw. generatePackageCPEs_add any p product vendor targetSw)
           ([any] @ targetSws) state')"
      by (rule fold_invariant [rotated]) (rule generatePackageCPEs_add_invariant)
  qed
qed

text \<open>The result of the generator in terms of the loops, the filters and the sorter.\<close>

lemma generatePackageCPEs_result:
  assumes "generatePackageCPEs any sorter p = Inr cpes"
  shows "\<exists>products vendors.
     candidateProducts p = Inr products \<and> candidateVendors p = Inr vendors
     \<and> cpes = apply_sort_Sort sorter any
         (filterCPEs
            (snd (generatePackageCPEs_loops any p products vendors
                    (candidateTargetSoftwareAttrs p)))
            p (cpeFilters any))"
proof -
  obtain products vendors
    where pv: "candidateProducts p = Inr products" "candidateVendors p = Inr vendors"
    using candidateProducts_total [of p] candidateVendors_total [of p] by blast
  show ?thesis
  proof (cases "products = []")
    case True
    have "generatePackageCPEs_loops any p [] vendors (candidateTargetSoftwareAttrs p) = ({}, [])"
      by (simp add: generatePackageCPEs_loops_def)
    with True pv assms show ?thesis
      by (simp add: generatePackageCPEs_def filterCPEs_def apply_sort_Sort_Nil)
  next
    case False
    with pv assms show ?thesis
      by (auto simp: generatePackageCPEs_def Let_def)
  qed
qed

lemma distinct_map_compose:
  assumes "distinct (map (\<lambda>x. g (f x)) xs)"
  shows "distinct (map f xs)"
  using assms by (induction xs) auto

text \<open>
  Claim C4. Every identifier that the generator returns has the version of the input
  package as its version field, unchanged, and no two identifiers of the returned list
  agree on product, vendor, version and target software.
\<close>

theorem generatePackageCPEs_version_and_dedup:
  assumes "generatePackageCPEs any sorter p = Inr cpes"
  shows "list_all (\<lambda>c. AttrVersion c = Version p) cpes
     \<and> distinct (map (\<lambda>c. (Product c, Vendor c, AttrVersion c, TargetSW c)) cpes)"
proof -
  obtain products vendors where
    cpes: "cpes = apply_sort_Sort sorter any
         (filterCPEs
            (snd (generatePackageCPEs_loops any p products vendors
                    (candidateTargetSoftwareAttrs p)))
            p (cpeFilters any))"
    using generatePackageCPEs_result [OF assms] by blast
  let ?generated = "snd (generatePackageCPEs_loops any p products vendors
                          (candidateTargetSoftwareAttrs p))"
  have inv: "loops_invariant p
      (generatePackageCPEs_loops any p products vendors (candidateTargetSoftwareAttrs p))"
    by (rule generatePackageCPEs_loops_invariant)
  then have versions: "list_all (\<lambda>c. AttrVersion c = Version p) ?generated"
    and keys: "distinct (map dedupKey ?generated)"
    by (auto simp: loops_invariant_def split: prod.splits)
  have "set cpes \<subseteq> set ?generated"
    by (auto simp: cpes set_apply_sort_Sort filterCPEs_filter)
  with versions have "list_all (\<lambda>c. AttrVersion c = Version p) cpes"
    by (auto simp: list_all_iff)
  moreover have "distinct (map (\<lambda>c. (Product c, Vendor c, AttrVersion c, TargetSW c)) cpes)"
  proof -
    define g :: "string \<times> string \<times> string \<times> string \<Rightarrow> string"
      where "g = (\<lambda>(product, vendor, version, targetSw).
                    product @ ''|'' @ vendor @ ''|'' @ version @ ''|'' @ targetSw)"
    have "distinct (map dedupKey cpes)"
      using keys
      by (simp add: cpes distinct_map_apply_sort_Sort filterCPEs_filter
          distinct_map_filter)
    moreover have "map dedupKey cpes
        = map (\<lambda>c. g (Product c, Vendor c, AttrVersion c, TargetSW c)) cpes"
      by (simp add: g_def dedupKey_def)
    ultimately have
      "distinct (map (\<lambda>c. g (Product c, Vendor c, AttrVersion c, TargetSW c)) cpes)"
      by simp
    then show ?thesis
      by (rule distinct_map_compose)
  qed
  ultimately show ?thesis by blast
qed

theorem generatePackageCPEs_version_and_dedup_witness:
  "generatePackageCPEs ''*'' stableSort (goModulePackage ''github.com/foo/bar'')
     = Inr [newCPE ''*'' ''bar'' ''foo'' ''v1.0.0'' ''go'',
            newCPE ''*'' ''bar'' ''foo'' ''v1.0.0'' ''golang'',
            newCPE ''*'' ''bar'' ''foo'' ''v1.0.0'' ''*'']
   \<and> Version (goModulePackage ''github.com/foo/bar'') = ''v1.0.0''
   \<and> map AttrVersion
        [newCPE ''*'' ''bar'' ''foo'' ''v1.0.0'' ''go'',
         newCPE ''*'' ''bar'' ''foo'' ''v1.0.0'' ''golang'',
         newCPE ''*'' ''bar'' ''foo'' ''v1.0.0'' ''*'']
       = [''v1.0.0'', ''v1.0.0'', ''v1.0.0'']
   \<and> distinct (map (\<lambda>c. (Product c, Vendor c, AttrVersion c, TargetSW c))
        [newCPE ''*'' ''bar'' ''foo'' ''v1.0.0'' ''go'',
         newCPE ''*'' ''bar'' ''foo'' ''v1.0.0'' ''golang'',
         newCPE ''*'' ''bar'' ''foo'' ''v1.0.0'' ''*''])"
proof -
  have run: "generatePackageCPEs ''*'' stableSort (goModulePackage ''github.com/foo/bar'')
     = Inr [newCPE ''*'' ''bar'' ''foo'' ''v1.0.0'' ''go'',
            newCPE ''*'' ''bar'' ''foo'' ''v1.0.0'' ''golang'',
            newCPE ''*'' ''bar'' ''foo'' ''v1.0.0'' ''*'']"
    by (simp add: gen_eval resolve_eval go_eval expander_eval goModulePackage_def)
  have version: "Version (goModulePackage ''github.com/foo/bar'') = ''v1.0.0''"
    by (simp add: goModulePackage_def)
  show ?thesis
    using run version generatePackageCPEs_version_and_dedup [OF run]
    by (simp add: version)
qed

section \<open>Properties of the exclusion filters\<close>

lemma set_generatePackageCPEs:
  assumes "generatePackageCPEs any sorter p = Inr cpes"
    and "candidateProducts p = Inr products" and "candidateVendors p = Inr vendors"
  shows "set cpes =
     {c \<in> set (snd (generatePackageCPEs_loops any p products vendors
                      (candidateTargetSoftwareAttrs p))).
        \<not> list_ex (\<lambda>fn. fn c p) (cpeFilters any)}"
  using generatePackageCPEs_result [OF assms(1)] assms(2,3)
  by (auto simp: set_apply_sort_Sort filterCPEs_filter)

text \<open>
  Claim C8. When the lower-cased name of the package contains \<^verbatim>\<open>client\<close>, the output
  has no identifier with product \<^verbatim>\<open>jira\<close> whose vendor is the wildcard, \<^verbatim>\<open>jira\<close> or
  \<^verbatim>\<open>atlassian\<close>; when the lower-cased name does not contain \<^verbatim>\<open>jenkins\<close>, the output has no
  identifier with product \<^verbatim>\<open>jenkins\<close> whose vendor is the wildcard, \<^verbatim>\<open>jenkins\<close> or
  \<^verbatim>\<open>cloudbees\<close>. An identifier with product \<^verbatim>\<open>jira\<close> and any other vendor that the nested
  loops generated is in the output.
\<close>

theorem generatePackageCPEs_exclusion_filters:
  assumes "generatePackageCPEs any sorter p = Inr cpes"
  shows "(Contains (ToLower (Name p)) ''client'' \<longrightarrow>
            \<not> (\<exists>c \<in> set cpes.
                  Product c = ''jira''
                  \<and> (Vendor c = any \<or> Vendor c = ''jira'' \<or> Vendor c = ''atlassian'')))
     \<and> (\<not> Contains (ToLower (Name p)) ''jenkins'' \<longrightarrow>
            \<not> (\<exists>c \<in> set cpes.
                  Product c = ''jenkins''
                  \<and> (Vendor c = any \<or> Vendor c = ''jenkins'' \<or> Vendor c = ''cloudbees'')))
     \<and> (\<forall>products vendors c.
            candidateProducts p = Inr products \<and> candidateVendors p = Inr vendors
            \<and> c \<in> set (snd (generatePackageCPEs_loops any p products vendors
                               (candidateTargetSoftwareAttrs p)))
            \<and> Product c = ''jira''
            \<and> Vendor c \<noteq> any \<and> Vendor c \<noteq> ''jira'' \<and> Vendor c \<noteq> ''atlassian''
            \<longrightarrow> c \<in> set cpes)"
proof -
  obtain products vendors
    where pv: "candidateProducts p = Inr products" "candidateVendors p = Inr vendors"
    using candidateProducts_total [of p] candidateVendors_total [of p] by blast
  note out_set = set_generatePackageCPEs [OF assms pv]
  have jira: "\<not> (\<exists>c \<in> set cpes.
                  Product c = ''jira''
                  \<and> (Vendor c = any \<or> Vendor c = ''jira'' \<or> Vendor c = ''atlassian''))"
    if "Contains (ToLower (Name p)) ''client''"
    using that unfolding out_set by (auto simp: cpeFilters_def)
  have jenkins: "\<not> (\<exists>c \<in> set cpes.
                  Product c = ''jenkins''
                  \<and> (Vendor c = any \<or> Vendor c = ''jenkins'' \<or> Vendor c = ''cloudbees''))"
    if "\<not> Contains (ToLower (Name p)) ''jenkins''"
    using that unfolding out_set by (auto simp: cpeFilters_def)
  have kept: "c \<in> set cpes"
    if "candidateProducts p = Inr products'" and "candidateVendors p = Inr vendors'"
      and "c \<in> set (snd (generatePackageCPEs_loops any p products' vendors'
                           (candidateTargetSoftwareAttrs p)))"
      and "Product c = ''jira''"
      and "Vendor c \<noteq> any" and "Vendor c \<noteq> ''jira''" and "Vendor c \<noteq> ''atlassian''"
    for products' vendors' c
    using that pv unfolding out_set by (auto simp: cpeFilters_def)
  from jira jenkins kept show ?thesis by blast
qed

theorem generatePackageCPEs_exclusion_filters_witness:
  "\<exists>cpes cpes'.
     generatePackageCPEs ''*'' stableSort jiraClientPackage = Inr cpes
     \<and> map (\<lambda>c. (Product c, Vendor c, TargetSW c)) cpes
         = [(''client'', ''client'', ''java''), (''client'', ''client'', ''maven''),
            (''client'', ''jira'', ''java''), (''client'', ''jira'', ''maven''),
            (''client'', ''atlassian'', ''java''), (''client'', ''atlassian'', ''maven''),
            (''jira'', ''client'', ''java''), (''jira'', ''client'', ''maven''),
            (''client'', ''client'', ''*''), (''client'', ''jira'', ''*''),
            (''client'', ''atlassian'', ''*''), (''jira'', ''client'', ''*'')]
     \<and> \<not> (\<exists>c \<in> set cpes.
            Product c = ''jira''
            \<and> (Vendor c = ''*'' \<or> Vendor c = ''jira'' \<or> Vendor c = ''atlassian''))
     \<and> newCPE ''*'' ''jira'' ''client'' ''0.5'' ''java'' \<in> set cpes
     \<and> generatePackageCPEs ''*'' stableSort acmeWidgetPackage = Inr cpes'
     \<and> \<not> (\<exists>c \<in> set cpes'.
            Product c = ''jenkins''
            \<and> (Vendor c = ''*'' \<or> Vendor c = ''jenkins'' \<or> Vendor c = ''cloudbees''))"
proof -
  obtain cpes where cpes: "generatePackageCPEs ''*'' stableSort jiraClientPackage = Inr cpes"
    using generatePackageCPEs_total by blast
  obtain cpes' where cpes': "generatePackageCPEs ''*'' stableSort acmeWidgetPackage = Inr cpes'"
    using generatePackageCPEs_total by blast
  have "map_sum id (map (\<lambda>c. (Product c, Vendor c, TargetSW c)))
          (generatePackageCPEs ''*'' stableSort jiraClientPackage)
        = Inr [(''client'', ''client'', ''java''), (''client'', ''client'', ''maven''),
            (''client'', ''jira'', ''java''), (''client'', ''jira'', ''maven''),
            (''client'', ''atlassian'', ''java''), (''client'', ''atlassian'', ''maven''),
            (''jira'', ''client'', ''java''), (''jira'', ''client'', ''maven''),
            (''client'', ''client'', ''*''), (''client'', ''jira'', ''*''),
            (''client'', ''atlassian'', ''*''), (''jira'', ''client'', ''*'')]"
    by (simp add: gen_eval resolve_eval java_eval_all expander_eval jiraClientPackage_def)
  then have projection: "map (\<lambda>c. (Product c, Vendor c, TargetSW c)) cpes
        = [(''client'', ''client'', ''java''), (''client'', ''client'', ''maven''),
            (''client'', ''jira'', ''java''), (''client'', ''jira'', ''maven''),
            (''client'', ''atlassian'', ''java''), (''client'', ''atlassian'', ''maven''),
            (''jira'', ''client'', ''java''), (''jira'', ''client'', ''maven''),
            (''client'', ''client'', ''*''), (''client'', ''jira'', ''*''),
            (''client'', ''atlassian'', ''*''), (''jira'', ''client'', ''*'')]"
    by (simp add: cpes)
  have client: "Contains (ToLower (Name jiraClientPackage)) ''client''"
    by (simp add: jiraClientPackage_def ToLower_def toLowerByte_def HasPrefix_def)
  have widget: "\<not> Contains (ToLower (Name acmeWidgetPackage)) ''jenkins''"
    by (simp add: acmeWidgetPackage_def ToLower_def toLowerByte_def HasPrefix_def)
  have products: "candidateProducts jiraClientPackage = Inr [''client'', ''jira'']"
    by (simp add: resolve_eval java_eval_all jiraClientPackage_def ToLower_def toLowerByte_def)
  have vendors: "candidateVendors jiraClientPackage = Inr [''client'', ''jira'', ''atlassian'']"
    unfolding candidateVendors_def products
    by (simp add: jiraClientPackage_def java_eval_all normalizeAllSeparators_def
        removeDuplicateValues_def generateAllSubSelections_def ReplaceAll_def HasPrefix_def
        expander_eval)
  have generated: "newCPE ''*'' ''jira'' ''client'' ''0.5'' ''java''
      \<in> set (snd (generatePackageCPEs_loops ''*'' jiraClientPackage [''client'', ''jira'']
                    [''client'', ''jira'', ''atlassian'']
                    (candidateTargetSoftwareAttrs jiraClientPackage)))"
    by (simp add: generatePackageCPEs_loops_def generatePackageCPEs_add_def
        candidateTargetSoftwareAttrs_def candidateTargetSoftwareAttrsForJava_def
        jiraClientPackage_def)
  have kept: "newCPE ''*'' ''jira'' ''client'' ''0.5'' ''java'' \<in> set cpes"
    using generatePackageCPEs_exclusion_filters [OF cpes] products vendors generated
    by (simp add: newCPE_def NewAttributesWithAny_def)
  have no_jira: "\<not> (\<exists>c \<in> set cpes.
            Product c = ''jira''
            \<and> (Vendor c = ''*'' \<or> Vendor c = ''jira'' \<or> Vendor c = ''atlassian''))"
    using generatePackageCPEs_exclusion_filters [OF cpes] client by blast
  have no_jenkins: "\<not> (\<exists>c \<in> set cpes'.
            Product c = ''jenkins''
            \<and> (Vendor c = ''*'' \<or> Vendor c = ''jenkins'' \<or> Vendor c = ''cloudbees''))"
    using generatePackageCPEs_exclusion_filters [OF cpes'] widget by blast
  show ?thesis
  proof (intro exI conjI)
    show "generatePackageCPEs ''*'' stableSort jiraClientPackage = Inr cpes"
      by (rule cpes)
    show "map (\<lambda>c. (Product c, Vendor c, TargetSW c)) cpes
        = [(''client'', ''client'', ''java''), (''client'', ''client'', ''maven''),
            (''client'', ''jira'', ''java''), (''client'', ''jira'', ''maven''),
            (''client'', ''atlassian'', ''java''), (''client'', ''atlassian'', ''maven''),
            (''jira'', ''client'', ''java''), (''jira'', ''client'', ''maven''),
            (''client'', ''client'', ''*''), (''client'', ''jira'', ''*''),
            (''client'', ''atlassian'', ''*''), (''jira'', ''client'', ''*'')]"
      by (rule projection)
    show "\<not> (\<exists>c \<in> set cpes.
            Product c = ''jira''
            \<and> (Vendor c = ''*'' \<or> Vendor c = ''jira'' \<or> Vendor c = ''atlassian''))"
      by (rule no_jira)
    show "newCPE ''*'' ''jira'' ''client'' ''0.5'' ''java'' \<in> set cpes"
      by (rule kept)
    show "generatePackageCPEs ''*'' stableSort acmeWidgetPackage = Inr cpes'"
      by (rule cpes')
    show "\<not> (\<exists>c \<in> set cpes'.
            Product c = ''jenkins''
            \<and> (Vendor c = ''*'' \<or> Vendor c = ''jenkins'' \<or> Vendor c = ''cloudbees''))"
      by (rule no_jenkins)
  qed
qed

section \<open>Properties of the Specificity Sorter\<close>

text \<open>
  Replacing the target software of an identifier by the wildcard, when it was not the
  wildcard, adds one wildcard field.
\<close>

lemma countWildcardFields_TargetSW:
  "TargetSW c \<noteq> any
   \<Longrightarrow> countWildcardFields any (c\<lparr>TargetSW := any\<rparr>) = Suc (countWildcardFields any c)"
  by (simp add: countWildcardFields_def)

text \<open>
  Claim C9, as the code has it. Whatever \<^verbatim>\<open>sort.Sort\<close> does within its contract, the
  output of the generator holds exactly the identifiers that survived the filters, each
  as often as the filters left it, and it is ordered by specificity: no identifier
  stands before one that has fewer wildcard fields. Hence an identifier whose target
  software is not the wildcard stands before the identifier that differs from it only
  in having the wildcard as target software. The order of equally specific identifiers
  among themselves is the choice of \<^verbatim>\<open>sort.Sort\<close>, which is not a stable sort, and
  nothing is said of it.
\<close>

theorem generatePackageCPEs_order_by_specificity:
  assumes "generatePackageCPEs any sorter p = Inr cpes"
    and "candidateProducts p = Inr products" and "candidateVendors p = Inr vendors"
  shows "mset cpes
           = mset (filterCPEs
                     (snd (generatePackageCPEs_loops any p products vendors
                             (candidateTargetSoftwareAttrs p)))
                     p (cpeFilters any))
     \<and> sorted_wrt (\<lambda>a b. countWildcardFields any a \<le> countWildcardFields any b) cpes
     \<and> (\<forall>i j. i < length cpes \<and> j < length cpes
            \<and> TargetSW (cpes ! i) \<noteq> any \<and> cpes ! j = (cpes ! i)\<lparr>TargetSW := any\<rparr>
            \<longrightarrow> i < j)"
proof -
  have cpes: "cpes = apply_sort_Sort sorter any
         (filterCPEs
            (snd (generatePackageCPEs_loops any p products vendors
                    (candidateTargetSoftwareAttrs p)))
            p (cpeFilters any))"
    using generatePackageCPEs_result [OF assms(1)] assms(2,3) by auto
  have permuted: "mset cpes
           = mset (filterCPEs
                     (snd (generatePackageCPEs_loops any p products vendors
                             (candidateTargetSoftwareAttrs p)))
                     p (cpeFilters any))"
    unfolding cpes by (rule mset_apply_sort_Sort)
  have ordered: "sorted_wrt (\<lambda>a b. countWildcardFields any a \<le> countWildcardFields any b) cpes"
    unfolding cpes by (rule sorted_apply_sort_Sort)
  have before: "i < j"
    if "i < length cpes" and "j < length cpes" and "TargetSW (cpes ! i) \<noteq> any"
      and "cpes ! j = (cpes ! i)\<lparr>TargetSW := any\<rparr>" for i j
  proof (rule ccontr)
    assume "\<not> i < j"
    then consider "j = i" | "j < i" by linarith
    then show False
    proof cases
      case 1
      with that(4) have "TargetSW (cpes ! i) = any"
        by (metis CPE.select_convs(8) CPE.surjective CPE.update_convs(8))
      with that(3) show False by blast
    next
      case 2
      with ordered that(1) have
        "countWildcardFields any (cpes ! j) \<le> countWildcardFields any (cpes ! i)"
        by (simp add: sorted_wrt_iff_nth_less)
      with that(3,4) show False
        by (simp add: countWildcardFields_TargetSW)
    qed
  qed
  from permuted ordered before show ?thesis by blast
qed

theorem generatePackageCPEs_order_by_specificity_witness:
  "generatePackageCPEs ''*'' stableSort (goModulePackage ''github.com/foo/bar'')
     = Inr [newCPE ''*'' ''bar'' ''foo'' ''v1.0.0'' ''go'',
            newCPE ''*'' ''bar'' ''foo'' ''v1.0.0'' ''golang'',
            newCPE ''*'' ''bar'' ''foo'' ''v1.0.0'' ''*'']
   \<and> filterCPEs
        (snd (generatePackageCPEs_loops ''*'' (goModulePackage ''github.com/foo/bar'')
                [''bar''] [''foo'']
                (candidateTargetSoftwareAttrs (goModulePackage ''github.com/foo/bar''))))
        (goModulePackage ''github.com/foo/bar'') (cpeFilters ''*'')
       = [newCPE ''*'' ''bar'' ''foo'' ''v1.0.0'' ''*'',
          newCPE ''*'' ''bar'' ''foo'' ''v1.0.0'' ''go'',
          newCPE ''*'' ''bar'' ''foo'' ''v1.0.0'' ''golang'']
   \<and> mset [newCPE ''*'' ''bar'' ''foo'' ''v1.0.0'' ''go'',
            newCPE ''*'' ''bar'' ''foo'' ''v1.0.0'' ''golang'',
            newCPE ''*'' ''bar'' ''foo'' ''v1.0.0'' ''*'']
       = mset [newCPE ''*'' ''bar'' ''foo'' ''v1.0.0'' ''*'',
               newCPE ''*'' ''bar'' ''foo'' ''v1.0.0'' ''go'',
               newCPE ''*'' ''bar'' ''foo'' ''v1.0.0'' ''golang'']
   \<and> sorted_wrt (\<lambda>a b. countWildcardFields ''*'' a \<le> countWildcardFields ''*'' b)
        [newCPE ''*'' ''bar'' ''foo'' ''v1.0.0'' ''go'',
         newCPE ''*'' ''bar'' ''foo'' ''v1.0.0'' ''golang'',
         newCPE ''*'' ''bar'' ''foo'' ''v1.0.0'' ''*'']
   \<and> (0::nat) < 2"
proof -
  let ?p = "goModulePackage ''github.com/foo/bar''"
  let ?go = "newCPE ''*'' ''bar'' ''foo'' ''v1.0.0'' ''go''"
  let ?golang = "newCPE ''*'' ''bar'' ''foo'' ''v1.0.0'' ''golang''"
  let ?any = "newCPE ''*'' ''bar'' ''foo'' ''v1.0.0'' ''*''"
  have run: "generatePackageCPEs ''*'' stableSort ?p = Inr [?go, ?golang, ?any]"
    by (simp add: gen_eval resolve_eval go_eval expander_eval goModulePackage_def)
  have products: "candidateProducts ?p = Inr [''bar'']"
    by (simp add: resolve_eval go_eval goModulePackage_def)
  have vendors: "candidateVendors ?p = Inr [''foo'']"
    unfolding candidateVendors_def products
    by (simp add: goModulePackage_def go_eval normalizeAllSeparators_def
        removeDuplicateValues_def generateAllSubSelections_def expander_eval)
  have generated: "filterCPEs
        (snd (generatePackageCPEs_loops ''*'' ?p [''bar''] [''foo'']
                (candidateTargetSoftwareAttrs ?p)))
        ?p (cpeFilters ''*'') = [?any, ?go, ?golang]"
    by (simp add: gen_eval goModulePackage_def)
  note ordered_at = generatePackageCPEs_order_by_specificity [OF run products vendors]
  have permuted: "mset [?go, ?golang, ?any] = mset [?any, ?go, ?golang]"
    using ordered_at [THEN conjunct1] unfolding generated .
  have ordered: "sorted_wrt (\<lambda>a b. countWildcardFields ''*'' a \<le> countWildcardFields ''*'' b)
        [?go, ?golang, ?any]"
    using ordered_at [THEN conjunct2, THEN conjunct1] .
  have "(0::nat) < 2"
    using ordered_at [THEN conjunct2, THEN conjunct2, rule_format, of 0 2]
    by (simp add: newCPE_def NewAttributesWithAny_def)
  with run generated permuted ordered show ?thesis by blast
qed

text \<open>
  The claim as it was stated asks for more: that equally specific identifiers stand in
  the output in the order in which the loops generated them. The code sorts with
  \<^verbatim>\<open>sort.Sort\<close>, which does not promise it. For the Java package \<^verbatim>\<open>widget\<close> of the group
  \<^verbatim>\<open>org.acme.jenkins\<close> fifteen identifiers survive the filters, ten of them with six
  wildcard fields. \<open>tiesReversedSort\<close>, one of the behaviours that the contract of
  \<^verbatim>\<open>sort.Sort\<close> allows, returns the fifteen ordered by specificity, and the ten are not
  in the order in which the loops generated them.
\<close>

theorem generatePackageCPEs_stability_counterexample:
  "candidateProducts acmeWidgetPackage = Inr [''widget'', ''jenkins'']
   \<and> candidateVendors acmeWidgetPackage = Inr [''widget'', ''jenkins'', ''acme'']
   \<and> map (\<lambda>c. (Product c, Vendor c, TargetSW c))
        (filterCPEs
           (snd (generatePackageCPEs_loops ''*'' acmeWidgetPackage
                   [''widget'', ''jenkins''] [''widget'', ''jenkins'', ''acme'']
                   (candidateTargetSoftwareAttrs acmeWidgetPackage)))
           acmeWidgetPackage (cpeFilters ''*''))
       = [(''widget'', ''widget'', ''*''),
          (''widget'', ''widget'', ''java''),
          (''widget'', ''widget'', ''maven''),
          (''widget'', ''jenkins'', ''*''),
          (''widget'', ''jenkins'', ''java''),
          (''widget'', ''jenkins'', ''maven''),
          (''widget'', ''acme'', ''*''),
          (''widget'', ''acme'', ''java''),
          (''widget'', ''acme'', ''maven''),
          (''jenkins'', ''widget'', ''*''),
          (''jenkins'', ''widget'', ''java''),
          (''jenkins'', ''widget'', ''maven''),
          (''jenkins'', ''acme'', ''*''),
          (''jenkins'', ''acme'', ''java''),
          (''jenkins'', ''acme'', ''maven'')]
   \<and> generatePackageCPEs ''*'' tiesReversedSort acmeWidgetPackage
       = Inr (sortTiesReversed ''*''
           (filterCPEs
              (snd (generatePackageCPEs_loops ''*'' acmeWidgetPackage
                      [''widget'', ''jenkins''] [''widget'', ''jenkins'', ''acme'']
                      (candidateTargetSoftwareAttrs acmeWidgetPackage)))
              acmeWidgetPackage (cpeFilters ''*'')))
   \<and> map (\<lambda>c. (Product c, Vendor c, TargetSW c))
        (sortTiesReversed ''*''
           (filterCPEs
              (snd (generatePackageCPEs_loops ''*'' acmeWidgetPackage
                      [''widget'', ''jenkins''] [''widget'', ''jenkins'', ''acme'']
                      (candidateTargetSoftwareAttrs acmeWidgetPackage)))
              acmeWidgetPackage (cpeFilters ''*'')))
       = [(''jenkins'', ''acme'', ''maven''),
          (''jenkins'', ''acme'', ''java''),
          (''jenkins'', ''widget'', ''maven''),
          (''jenkins'', ''widget'', ''java''),
          (''widget'', ''acme'', ''maven''),
          (''widget'', ''acme'', ''java''),
          (''widget'', ''jenkins'', ''maven''),
          (''widget'', ''jenkins'', ''java''),
          (''widget'', ''widget'', ''maven''),
          (''widget'', ''widget'', ''java''),
          (''jenkins'', ''acme'', ''*''),
          (''jenkins'', ''widget'', ''*''),
          (''widget'', ''acme'', ''*''),
          (''widget'', ''jenkins'', ''*''),
          (''widget'', ''widget'', ''*'')]
   \<and> filter (\<lambda>c. countWildcardFields ''*'' c = 6)
        (sortTiesReversed ''*''
           (filterCPEs
              (snd (generatePackageCPEs_loops ''*'' acmeWidgetPackage
                      [''widget'', ''jenkins''] [''widget'', ''jenkins'', ''acme'']
                      (candidateTargetSoftwareAttrs acmeWidgetPackage)))
              acmeWidgetPackage (cpeFilters ''*'')))
       \<noteq> filter (\<lambda>c. countWildcardFields ''*'' c = 6)
           (filterCPEs
              (snd (generatePackageCPEs_loops ''*'' acmeWidgetPackage
                      [''widget'', ''jenkins''] [''widget'', ''jenkins'', ''acme'']
                      (candidateTargetSoftwareAttrs acmeWidgetPackage)))
              acmeWidgetPackage (cpeFilters ''*''))"
proof -
  let ?survivors = "filterCPEs
      (snd (generatePackageCPEs_loops ''*'' acmeWidgetPackage
              [''widget'', ''jenkins''] [''widget'', ''jenkins'', ''acme'']
              (candidateTargetSoftwareAttrs acmeWidgetPackage)))
      acmeWidgetPackage (cpeFilters ''*'')"
  have products: "candidateProducts acmeWidgetPackage = Inr [''widget'', ''jenkins'']"
    by (simp add: resolve_eval java_eval_all acmeWidgetPackage_def ToLower_def toLowerByte_def)
  have vendors: "candidateVendors acmeWidgetPackage = Inr [''widget'', ''jenkins'', ''acme'']"
    unfolding candidateVendors_def products
    by (simp add: acmeWidgetPackage_def java_eval_all normalizeAllSeparators_def
        removeDuplicateValues_def generateAllSubSelections_def ReplaceAll_def HasPrefix_def
        expander_eval)
  have survivors: "?survivors
      = [newCPE ''*'' ''widget'' ''widget'' ''2.1'' ''*'',
         newCPE ''*'' ''widget'' ''widget'' ''2.1'' ''java'',
         newCPE ''*'' ''widget'' ''widget'' ''2.1'' ''maven'',
         newCPE ''*'' ''widget'' ''jenkins'' ''2.1'' ''*'',
         newCPE ''*'' ''widget'' ''jenkins'' ''2.1'' ''java'',
         newCPE ''*'' ''widget'' ''jenkins'' ''2.1'' ''maven'',
         newCPE ''*'' ''widget'' ''acme'' ''2.1'' ''*'',
         newCPE ''*'' ''widget'' ''acme'' ''2.1'' ''java'',
         newCPE ''*'' ''widget'' ''acme'' ''2.1'' ''maven'',
         newCPE ''*'' ''jenkins'' ''widget'' ''2.1'' ''*'',
         newCPE ''*'' ''jenkins'' ''widget'' ''2.1'' ''java'',
         newCPE ''*'' ''jenkins'' ''widget'' ''2.1'' ''maven'',
         newCPE ''*'' ''jenkins'' ''acme'' ''2.1'' ''*'',
         newCPE ''*'' ''jenkins'' ''acme'' ''2.1'' ''java'',
         newCPE ''*'' ''jenkins'' ''acme'' ''2.1'' ''maven'']"
    by (simp add: gen_eval acmeWidgetPackage_def HasPrefix_def)
  have generated: "map (\<lambda>c. (Product c, Vendor c, TargetSW c)) ?survivors
      = [(''widget'', ''widget'', ''*''),
         (''widget'', ''widget'', ''java''),
         (''widget'', ''widget'', ''maven''),
         (''widget'', ''jenkins'', ''*''),
         (''widget'', ''jenkins'', ''java''),
         (''widget'', ''jenkins'', ''maven''),
         (''widget'', ''acme'', ''*''),
         (''widget'', ''acme'', ''java''),
         (''widget'', ''acme'', ''maven''),
         (''jenkins'', ''widget'', ''*''),
         (''jenkins'', ''widget'', ''java''),
         (''jenkins'', ''widget'', ''maven''),
         (''jenkins'', ''acme'', ''*''),
         (''jenkins'', ''acme'', ''java''),
         (''jenkins'', ''acme'', ''maven'')]"
    unfolding survivors by (simp add: newCPE_def NewAttributesWithAny_def)
  have run: "generatePackageCPEs ''*'' tiesReversedSort acmeWidgetPackage
      = Inr (sortTiesReversed ''*'' ?survivors)"
    by (simp add: generatePackageCPEs_def products vendors apply_tiesReversedSort)
  have sorted: "map (\<lambda>c. (Product c, Vendor c, TargetSW c)) (sortTiesReversed ''*'' ?survivors)
      = [(''jenkins'', ''acme'', ''maven''),
         (''jenkins'', ''acme'', ''java''),
         (''jenkins'', ''widget'', ''maven''),
         (''jenkins'', ''widget'', ''java''),
         (''widget'', ''acme'', ''maven''),
         (''widget'', ''acme'', ''java''),
         (''widget'', ''jenkins'', ''maven''),
         (''widget'', ''jenkins'', ''java''),
         (''widget'', ''widget'', ''maven''),
         (''widget'', ''widget'', ''java''),
         (''jenkins'', ''acme'', ''*''),
         (''jenkins'', ''widget'', ''*''),
         (''widget'', ''acme'', ''*''),
         (''widget'', ''jenkins'', ''*''),
         (''widget'', ''widget'', ''*'')]"
    unfolding survivors
    by (simp add: newCPE_def NewAttributesWithAny_def countWildcardFields_def
        ByCPESpecificity_Less_def)
  have reordered: "filter (\<lambda>c. countWildcardFields ''*'' c = 6)
        (sortTiesReversed ''*'' ?survivors)
      \<noteq> filter (\<lambda>c. countWildcardFields ''*'' c = 6) ?survivors"
    unfolding survivors
    by (simp add: newCPE_def NewAttributesWithAny_def countWildcardFields_def
        ByCPESpecificity_Less_def)
  from products vendors generated run sorted reordered show ?thesis
    by (intro conjI)
qed

end
